theory Spec2Isabelle
  imports Complex_Main
begin

section \<open>Values of the Python program\<close>

text \<open>
  The pipeline of \<^verbatim>\<open>phenotypy/base.py\<close> (classes \<^verbatim>\<open>Classifier\<close>, \<^verbatim>\<open>Plot\<close>,
  \<^verbatim>\<open>Plant\<close>) is embedded as HOL functions. Exceptions are values of \<open>py_error\<close>, a
  fallible computation returns \<open>py_error + 'a\<close>. A 64-bit float is idealised as a real number
  plus the one special value the code can produce from real inputs, \<open>NaN\<close> (numpy's mean of an
  empty array); rounding error is not modelled.
\<close>

datatype py_error =
  ValueError | IndexError | KeyError | TypeError | AttributeError | ZeroDivisionError
  | NotFittedError | LinAlgError | QhullError | EOFError

definition ebind :: "py_error + 'a \<Rightarrow> ('a \<Rightarrow> py_error + 'b) \<Rightarrow> py_error + 'b" where
  "ebind m f = (case m of Inl e \<Rightarrow> Inl e | Inr v \<Rightarrow> f v)"

datatype npfloat = Num real | NaN

fun nf_add :: "npfloat \<Rightarrow> npfloat \<Rightarrow> npfloat" where
  "nf_add (Num a) (Num b) = Num (a + b)"
| "nf_add _ _ = NaN"

fun nf_sub :: "npfloat \<Rightarrow> npfloat \<Rightarrow> npfloat" where
  "nf_sub (Num a) (Num b) = Num (a - b)"
| "nf_sub _ _ = NaN"

text \<open>Every ordered comparison with NaN is false.\<close>

fun nf_gt :: "npfloat \<Rightarrow> npfloat \<Rightarrow> bool" where
  "nf_gt (Num a) (Num b) = (a > b)"
| "nf_gt _ _ = False"

section \<open>The numpy reductions the code calls\<close>

text \<open>\<^verbatim>\<open>a.min()\<close>, \<^verbatim>\<open>a.max()\<close>: ValueError on a zero-size array.\<close>

definition np_min :: "real list \<Rightarrow> py_error + real" where
  "np_min a = (case a of [] \<Rightarrow> Inl ValueError | x # xs \<Rightarrow> Inr (fold min xs x))"

definition np_max :: "real list \<Rightarrow> py_error + real" where
  "np_max a = (case a of [] \<Rightarrow> Inl ValueError | x # xs \<Rightarrow> Inr (fold max xs x))"

text \<open>\<^verbatim>\<open>a.mean()\<close>: NaN (with a RuntimeWarning) on a zero-size array.\<close>

definition np_mean :: "real list \<Rightarrow> npfloat" where
  "np_mean a = (if a = [] then NaN else Num (sum_list a / real (length a)))"

text \<open>
  \<^verbatim>\<open>np.percentile(a, q)\<close> with the default linear interpolation: the value at the fractional
  index \<open>q / 100 * (n - 1)\<close> of the sorted array. On a zero-size array the take of the
  neighbouring elements raises IndexError.
\<close>

definition np_percentile :: "real list \<Rightarrow> real \<Rightarrow> py_error + real" where
  "np_percentile a q =
     (if a = [] then Inl IndexError
      else let s = sort a;
               n = length a;
               idx = q / 100 * real (n - 1);
               below = nat \<lfloor>idx\<rfloor>;
               above = min (below + 1) (n - 1);
               w = idx - real below
           in Inr (s ! below * (1 - w) + s ! above * w))"

text \<open>\<^verbatim>\<open>np.median(a)\<close>: the middle of the sorted array, NaN on a zero-size array.\<close>

definition np_median :: "real list \<Rightarrow> npfloat" where
  "np_median a =
     (if a = [] then NaN
      else let s = sort a; n = length a
           in if odd n then Num (s ! (n div 2))
              else Num ((s ! (n div 2 - 1) + s ! (n div 2)) / 2))"

text \<open>\<^verbatim>\<open>np.linspace(start, stop, num)\<close>, endpoint included.\<close>

definition np_linspace :: "real \<Rightarrow> real \<Rightarrow> nat \<Rightarrow> real list" where
  "np_linspace start stop num =
     (if num = 1 then [start]
      else map (\<lambda>i. start + real i * ((stop - start) / real (num - 1))) [0..<num])"

section \<open>\<^verbatim>\<open>Plant.get_percentile_height\<close>\<close>

text \<open>
  \<^verbatim>\<open>ground_ht\<close> is the string \<^verbatim>\<open>'auto'\<close> or a number. \<^verbatim>\<open>scipy.stats.gaussian_kde\<close> is a
  library outside the repository: it enters as the parameter \<open>kde\<close>, which maps the data and
  the evaluation grid to the density values or to the exception the library raises.
\<close>

datatype ground_ht = Auto | Fixed real

record plot_use =
  use_plant_top :: npfloat
  use_plant_base :: npfloat
  use_top10 :: real
  use_ground_center :: npfloat

type_synonym kde_fn = "real list \<Rightarrow> real list \<Rightarrow> py_error + real list"

definition ground_sample :: "real list \<Rightarrow> real list \<Rightarrow> py_error + real list" where
  "ground_sample z ground_z0 =
     ebind (np_percentile z 5) (\<lambda>p5. Inr (filter (\<lambda>g. g < p5) ground_z0))"

definition ground_elevation :: "kde_fn \<Rightarrow> real list \<Rightarrow> real list \<Rightarrow> py_error + npfloat" where
  "ground_elevation kde z ground_z0 =
     ebind (ground_sample z ground_z0) (\<lambda>ground_z.
       ebind (np_min ground_z) (\<lambda>lo.
       ebind (np_max ground_z) (\<lambda>hi.
         let ele_ht_fine = np_linspace lo hi 1000 in
         ebind (kde ground_z ele_ht_fine) (\<lambda>ele_hist_num.
           Inr (np_median ground_z)))))"

definition points_above :: "npfloat \<Rightarrow> real list \<Rightarrow> real list" where
  "points_above plant_base z = filter (\<lambda>v. nf_gt (Num v) plant_base) z"

definition get_percentile_height ::
  "kde_fn \<Rightarrow> real list \<Rightarrow> real list \<Rightarrow> real \<Rightarrow> ground_ht \<Rightarrow> py_error + (npfloat \<times> plot_use)" where
  "get_percentile_height kde z ground_z0 container_ht ght =
     ebind (case ght of Auto \<Rightarrow> ground_elevation kde z ground_z0 | Fixed g \<Rightarrow> Inr (Num g)) (\<lambda>ele.
       let plant_base = nf_add ele (Num container_ht);
           ele_z = points_above plant_base z in
       ebind (np_percentile ele_z 90) (\<lambda>top10percentile.
         let plant_top = np_mean (filter (\<lambda>v. v > top10percentile) ele_z);
             percentile_ht = nf_sub plant_top plant_base
         in Inr (percentile_ht,
                 \<lparr>use_plant_top = plant_top, use_plant_base = plant_base,
                  use_top10 = top10percentile, use_ground_center = ele\<rparr>)))"

text \<open>
  The percentile height in the words of the specification: the ground sample is the ground
  points below the 5th percentile of the instance's z-values, the elevation its median (or the
  fixed value), the base is elevation plus container height, and the top is the average of the
  points above the base that exceed their own 90th percentile.
\<close>

definition spec_percentile :: "real list \<Rightarrow> real \<Rightarrow> real" where
  "spec_percentile a q =
     (let s = sort a; pos = q / 100 * real (length a - 1); i = nat \<lfloor>pos\<rfloor>
      in s ! i + (pos - real i) * (s ! min (Suc i) (length a - 1) - s ! i))"

definition spec_median :: "real list \<Rightarrow> real" where
  "spec_median a =
     (let s = sort a; n = length a
      in if even n then (s ! (n div 2 - 1) + s ! (n div 2)) / 2 else s ! (n div 2))"

definition spec_ground_sample :: "real list \<Rightarrow> real list \<Rightarrow> real list" where
  "spec_ground_sample z ground = filter (\<lambda>g. g < spec_percentile z 5) ground"

definition spec_plant_base :: "real list \<Rightarrow> real list \<Rightarrow> real \<Rightarrow> ground_ht \<Rightarrow> real" where
  "spec_plant_base z ground container_ht ght =
     (case ght of Auto \<Rightarrow> spec_median (spec_ground_sample z ground) | Fixed g \<Rightarrow> g) + container_ht"

definition spec_above_base :: "real list \<Rightarrow> real list \<Rightarrow> real \<Rightarrow> ground_ht \<Rightarrow> real list" where
  "spec_above_base z ground container_ht ght =
     filter (\<lambda>v. spec_plant_base z ground container_ht ght < v) z"

definition spec_percentile_height :: "real list \<Rightarrow> real list \<Rightarrow> real \<Rightarrow> ground_ht \<Rightarrow> npfloat" where
  "spec_percentile_height z ground container_ht ght =
     (let base = spec_plant_base z ground container_ht ght;
          above = spec_above_base z ground container_ht ght;
          top = filter (\<lambda>v. spec_percentile above 90 < v) above
      in if top = [] then NaN else Num (sum_list top / real (length top) - base))"

text \<open>The diagnostic density estimate of the automatic mode runs through on this sample.\<close>

definition density_estimated :: "kde_fn \<Rightarrow> real list \<Rightarrow> bool" where
  "density_estimated kde ground_z =
     (case ebind (np_min ground_z) (\<lambda>lo. ebind (np_max ground_z) (\<lambda>hi.
             kde ground_z (np_linspace lo hi 1000))) of
        Inl _ \<Rightarrow> False | Inr _ \<Rightarrow> True)"

text \<open>
  A stand-in for the density library in the worked examples: like scipy it refuses fewer than
  two data points and data without spread, and otherwise returns one value per grid point.
\<close>

definition flat_kde :: kde_fn where
  "flat_kde data grid =
     (if length data < 2 then Inl ValueError
      else if list_all (\<lambda>v. v = hd data) data then Inl LinAlgError
      else Inr (map (\<lambda>_. 0) grid))"

section \<open>Point clouds\<close>

text \<open>
  An open3d point cloud holds two index-aligned arrays, \<^verbatim>\<open>points\<close> and \<^verbatim>\<open>colors\<close>; it is
  modelled as the list of its (position, colour) pairs.
\<close>

type_synonym vec3 = "real \<times> real \<times> real"
type_synonym point = "vec3 \<times> vec3"
type_synonym cloud = "point list"

definition vx :: "vec3 \<Rightarrow> real" where "vx v = fst v"
definition vy :: "vec3 \<Rightarrow> real" where "vy v = fst (snd v)"
definition vz :: "vec3 \<Rightarrow> real" where "vz v = snd (snd v)"

definition cloud_xyz :: "cloud \<Rightarrow> vec3 list" where "cloud_xyz c = map fst c"
definition cloud_rgb :: "cloud \<Rightarrow> vec3 list" where "cloud_rgb c = map snd c"

text \<open>\<^verbatim>\<open>np.where(cond)[0].tolist()\<close>: the positions at which the condition holds, ascending.\<close>

definition np_where :: "('a \<Rightarrow> bool) \<Rightarrow> 'a list \<Rightarrow> nat list" where
  "np_where P xs = filter (\<lambda>i. P (xs ! i)) [0..<length xs]"

text \<open>
  \<^verbatim>\<open>pcd.select_down_sample(indices)\<close>: the points at the given positions, in the order given.
  The positions come from \<open>np_where\<close> over an array as long as the cloud; a position outside
  the cloud selects nothing in the model.
\<close>

definition select_down_sample :: "cloud \<Rightarrow> nat list \<Rightarrow> cloud" where
  "select_down_sample c indices = map (\<lambda>i. c ! i) (filter (\<lambda>i. i < length c) indices)"

text \<open>\<^verbatim>\<open>pcd.get_center()\<close>: the mean position, the origin for an empty cloud.\<close>

definition get_center :: "cloud \<Rightarrow> vec3" where
  "get_center c =
     (if c = [] then (0, 0, 0)
      else (sum_list (map vx (cloud_xyz c)) / real (length c),
            sum_list (map vy (cloud_xyz c)) / real (length c),
            sum_list (map vz (cloud_xyz c)) / real (length c)))"

text \<open>Python's \<^verbatim>\<open>round(x)\<close> on a float: to the nearest integer, a half to the even one.\<close>

definition py_round :: "real \<Rightarrow> int" where
  "py_round x =
     (let f = \<lfloor>x\<rfloor>; r = x - of_int f
      in if r < 1 / 2 then f else if 1 / 2 < r then f + 1 else if even f then f else f + 1)"

text \<open>Reading a Python list at a position.\<close>

definition py_index :: "'a list \<Rightarrow> nat \<Rightarrow> py_error + 'a" where
  "py_index xs i = (if i < length xs then Inr (xs ! i) else Inl IndexError)"

text \<open>Reading a dictionary (kept as the list of its items, in insertion order) at a key.\<close>

definition dict_get :: "('k \<times> 'v) list \<Rightarrow> 'k \<Rightarrow> py_error + 'v" where
  "dict_get d k = (case map_of d k of None \<Rightarrow> Inl KeyError | Some v \<Rightarrow> Inr v)"

fun emap :: "('a \<Rightarrow> py_error + 'b) \<Rightarrow> 'a list \<Rightarrow> py_error + 'b list" where
  "emap f [] = Inr []"
| "emap f (x # xs) = ebind (f x) (\<lambda>y. ebind (emap f xs) (\<lambda>ys. Inr (y # ys)))"

subsection \<open>Text of file names\<close>

definition digit_char :: "nat \<Rightarrow> char" where
  "digit_char n = ''0123456789'' ! n"

function str_nat :: "nat \<Rightarrow> string" where
  "str_nat n = (if n < 10 then [digit_char n] else str_nat (n div 10) @ [digit_char (n mod 10)])"
  by pat_completeness auto
termination
  by (relation "measure id") auto

declare str_nat.simps [simp del]

definition str_int :: "int \<Rightarrow> string" where
  "str_int k = (if k < 0 then ''-'' @ str_nat (nat (- k)) else str_nat (nat k))"

text \<open>\<^verbatim>\<open>os.path.join(a, b)\<close> on a POSIX system.\<close>

definition path_join :: "string \<Rightarrow> string \<Rightarrow> string" where
  "path_join a b =
     (if b \<noteq> [] \<and> hd b = CHR ''/'' then b
      else if a = [] \<or> last a = CHR ''/'' then a @ b
      else a @ ''/'' @ b)"

text \<open>\<^verbatim>\<open>needle in haystack\<close> on strings.\<close>

fun str_contains :: "string \<Rightarrow> string \<Rightarrow> bool" where
  "str_contains needle [] = (needle = [])"
| "str_contains needle (c # cs) =
     (take (length needle) (c # cs) = needle \<or> str_contains needle cs)"

section \<open>Libraries and helpers outside the source files\<close>

text \<open>
  The code calls open3d, scikit-learn, scikit-image, imageio, \<^verbatim>\<open>os.path\<close> and the
  repository's own \<^verbatim>\<open>pcd_tools\<close>, \<^verbatim>\<open>geometry\<close>, \<^verbatim>\<open>io.folder\<close>, \<^verbatim>\<open>io.shp\<close> and \<^verbatim>\<open>plotting\<close>
  modules, none of which is among the source files. Their functions are the fields of one
  record, passed to every operation; nothing is assumed about them except where a theorem
  says so. The field \<open>read_ply\<close> is the cloud that \<^verbatim>\<open>read_ply(file_path)\<close> of \<^verbatim>\<open>io/pcd.py\<close>
  returns, open3d's reading of the file with the colours of its \<^verbatim>\<open>red\<close> or \<^verbatim>\<open>diffuse_red\<close>
  columns when open3d found none; a cloud here has a colour for every point.
\<close>

type_synonym pixel = "nat \<times> nat \<times> nat \<times> nat"
type_synonym vec2 = "real \<times> real"
type_synonym binary_img = "nat list list"

record boundary =
  orthogonal_axis :: string
  bounding_polygon :: "vec3 list"
  axis_max :: real
  axis_min :: real

record rect_res =
  rot_angle :: real
  rect_area :: real
  rect_width :: real
  rect_length :: real

record region =
  region_centroid :: vec2
  major_axis_length :: real
  minor_axis_length :: real
  orientation :: real

datatype shp_src = OneShp string | ManyShps "string list"

record libs =
  imread :: "string \<Rightarrow> pixel list"
  read_ply :: "string \<Rightarrow> cloud"
  merge_pcd :: "cloud list \<Rightarrow> cloud"
  isfile :: "string \<Rightarrow> bool"
  isdir :: "string \<Rightarrow> bool"
  listdir :: "string \<Rightarrow> string list"
  abspath :: "string \<Rightarrow> string"
  tree_fit :: "vec3 list \<Rightarrow> int list \<Rightarrow> py_error + (vec3 \<Rightarrow> int)"
  pcd2voxel :: "cloud \<Rightarrow> nat option \<Rightarrow> cloud \<times> real \<times> real"
  remove_statistical_outlier :: "cloud \<Rightarrow> int \<Rightarrow> real \<Rightarrow> cloud \<times> nat list"
  remove_radius_outlier :: "cloud \<Rightarrow> int \<Rightarrow> real \<Rightarrow> cloud \<times> nat list"
  cluster_dbscan :: "cloud \<Rightarrow> real \<Rightarrow> int \<Rightarrow> int list"
  calculate_xyz_volume :: "cloud \<Rightarrow> real"
  kmeans2 :: "(real \<times> real) list \<Rightarrow> py_error + nat list"
  read_shp :: "shp_src \<Rightarrow> bool \<Rightarrow> (string \<times> vec3 list) list"
  crop_point_cloud :: "boundary \<Rightarrow> cloud \<Rightarrow> cloud"
  build_cut_boundary :: "vec3 list \<Rightarrow> real \<times> real \<Rightarrow> boundary"
  convex_hull2d :: "cloud \<Rightarrow> py_error + vec2 list \<times> real"
  min_bounding_rect :: "vec2 list \<Rightarrow> py_error + rect_res"
  pcd2binary :: "cloud \<Rightarrow> py_error + binary_img \<times> real \<times> vec2"
  regionprops :: "binary_img \<Rightarrow> region list"
  gaussian_kde :: kde_fn

section \<open>\<^verbatim>\<open>Classifier\<close>\<close>

text \<open>
  An entry of \<^verbatim>\<open>path_list\<close> is a point cloud, a string, or something else. \<^verbatim>\<open>self.clf\<close> is
  a fresh \<^verbatim>\<open>OneClassSVM()\<close>, a fitted decision tree (its decision function), a fresh
  \<^verbatim>\<open>SVC()\<close>, or was never assigned (\<open>None\<close>) when \<^verbatim>\<open>core\<close> is neither \<^verbatim>\<open>'dtc'\<close> nor
  \<^verbatim>\<open>'svm'\<close>. Labels are integers; numpy stores them as floats, exactly.
  \<^verbatim>\<open>set(kind_list)\<close> is kept as the list of its distinct elements: Python does not fix the
  iteration order of a set, the model takes the order of first occurrence, and no theorem
  below depends on that order.
\<close>

datatype train_src = Cloud cloud | Path string | Unsupported

datatype sk_model = OneClassSVM | DecisionTreeClassifier "vec3 \<Rightarrow> int" | SVC

record classifier =
  path_list :: "train_src list"
  kind_list :: "int list"
  train_data :: "vec3 list"
  train_kind :: "int list"
  kind_set :: "int list"
  clf :: "sk_model option"

definition read_png :: "libs \<Rightarrow> string \<Rightarrow> vec3 list" where
  "read_png ext file_path =
     map (\<lambda>(r, g, b, a). (real r / 255, real g / 255, real b / 255))
       (filter (\<lambda>(r, g, b, a). a = 255) (imread ext file_path))"

definition training_colors :: "libs \<Rightarrow> train_src \<Rightarrow> py_error + vec3 list" where
  "training_colors ext img_path =
     (case img_path of
        Cloud c \<Rightarrow> Inr (cloud_rgb c)
      | Path p \<Rightarrow>
          if str_contains ''.png'' p then Inr (read_png ext p)
          else if str_contains ''.ply'' p then Inr (cloud_rgb (read_ply ext p))
          else Inl AttributeError
      | Unsupported \<Rightarrow> Inl TypeError)"

fun build_training_array ::
  "libs \<Rightarrow> (train_src \<times> int) list \<Rightarrow> vec3 list \<times> int list \<Rightarrow> py_error + vec3 list \<times> int list" where
  "build_training_array ext [] acc = Inr acc"
| "build_training_array ext ((img_path, kind) # rest) (data, kinds) =
     ebind (training_colors ext img_path) (\<lambda>img_np.
       build_training_array ext rest
         (data @ img_np, kinds @ replicate (length img_np) kind))"

definition Classifier_init ::
  "libs \<Rightarrow> train_src list \<Rightarrow> int list \<Rightarrow> string \<Rightarrow> py_error + classifier" where
  "Classifier_init ext paths kinds core =
     (let path_n = length paths;
          kind_n = length kinds;
          pl = take (min path_n kind_n) paths;
          kl = take (min path_n kind_n) kinds
      in ebind (build_training_array ext (zip pl kl) ([], [])) (\<lambda>(data, tk).
           let ks = remdups kinds;
               self = \<lparr>path_list = pl, kind_list = kl, train_data = data, train_kind = tk,
                       kind_set = ks, clf = None\<rparr>
           in if length ks = 1 then Inr (self\<lparr>clf := Some OneClassSVM\<rparr>)
              else if core = ''dtc'' then
                ebind (tree_fit ext data tk) (\<lambda>fitted.
                  Inr (self\<lparr>clf := Some (DecisionTreeClassifier fitted)\<rparr>))
              else if core = ''svm'' then Inr (self\<lparr>clf := Some SVC\<rparr>)
              else Inr self))"

text \<open>
  What scikit-learn guarantees of a fitted tree: it predicts only labels it was trained on.
\<close>

definition predicts_trained_labels :: "libs \<Rightarrow> bool" where
  "predicts_trained_labels ext =
     (\<forall>X y fitted v. tree_fit ext X y = Inr fitted \<longrightarrow> fitted v \<in> set y)"

text \<open>
  \<^verbatim>\<open>Classifier.predict\<close>: scikit-learn refuses an estimator that was never fitted
  (NotFittedError) and, after that check, an array without samples (ValueError).
\<close>

definition predict :: "classifier \<Rightarrow> vec3 list \<Rightarrow> py_error + int list" where
  "predict self vars =
     (case clf self of
        None \<Rightarrow> Inl AttributeError
      | Some OneClassSVM \<Rightarrow> Inl NotFittedError
      | Some SVC \<Rightarrow> Inl NotFittedError
      | Some (DecisionTreeClassifier fitted) \<Rightarrow>
          if vars = [] then Inl ValueError else Inr (map fitted vars))"

section \<open>\<^verbatim>\<open>Plot\<close>\<close>

text \<open>
  What an operation leaves outside the program is a list of effects: a directory made, a
  cloud written, a figure drawn. An operation returns its result (or the exception raised)
  together with the effects performed up to that point.
\<close>

datatype effect =
  MakeDir string
| WritePointCloud string cloud
| DrawPlotSeg string vec2
| Draw3dResults string

type_synonym 'a run = "(py_error + 'a) \<times> effect list"

definition rpure :: "'a \<Rightarrow> 'a run" where
  "rpure v = (Inr v, [])"

definition rlift :: "py_error + 'a \<Rightarrow> 'a run" where
  "rlift m = (m, [])"

definition rdo :: "effect list \<Rightarrow> unit run" where
  "rdo w = (Inr (), w)"

definition rbind :: "'a run \<Rightarrow> ('a \<Rightarrow> 'b run) \<Rightarrow> 'b run" where
  "rbind m f =
     (case fst m of
        Inl e \<Rightarrow> (Inl e, snd m)
      | Inr v \<Rightarrow> (fst (f v), snd m @ snd (f v)))"

fun rmap :: "('a \<Rightarrow> 'b run) \<Rightarrow> 'a list \<Rightarrow> 'b list run" where
  "rmap f [] = rpure []"
| "rmap f (x # xs) = rbind (f x) (\<lambda>y. rbind (rmap f xs) (\<lambda>ys. rpure (y # ys)))"

record plot =
  ply_path :: string
  write_ply :: bool
  ply_name :: string
  out_folder :: string
  pcd :: cloud
  pcd_classified :: "(int \<times> cloud) list"
  pcd_cleaned :: "(int \<times> cloud) list"
  pcd_voxel :: cloud
  voxel_size :: real
  voxel_density :: real
  segmented :: bool
  pcd_segmented :: "(int \<times> cloud list) list"
  pcd_segmented_name :: "(int \<times> string list) list"

definition pcd_xyz :: "plot \<Rightarrow> vec3 list" where "pcd_xyz self = cloud_xyz (pcd self)"
definition pcd_rgb :: "plot \<Rightarrow> vec3 list" where "pcd_rgb self = cloud_rgb (pcd self)"

definition save_cloud :: "plot \<Rightarrow> string \<Rightarrow> cloud \<Rightarrow> unit run" where
  "save_cloud self file_name c =
     rdo (if write_ply self then [WritePointCloud (path_join (out_folder self) file_name) c]
          else [])"

subsection \<open>\<^verbatim>\<open>Plot.classifier_apply\<close>\<close>

definition classify_kind :: "plot \<Rightarrow> int list \<Rightarrow> int \<Rightarrow> (int \<times> cloud) run" where
  "classify_kind self pred_result k =
     (let indices = np_where (\<lambda>v. v = k) pred_result;
          sub = select_down_sample (pcd self) indices
      in rbind (save_cloud self (''class['' @ str_int k @ ''].ply'') sub) (\<lambda>_. rpure (k, sub)))"

definition classifier_apply :: "plot \<Rightarrow> classifier \<Rightarrow> (int \<times> cloud) list run" where
  "classifier_apply self c =
     rbind (rlift (predict c (pcd_rgb self))) (\<lambda>pred_result.
       rmap (classify_kind self pred_result) (kind_set c))"

subsection \<open>\<^verbatim>\<open>Plot.remove_noise\<close>\<close>

definition denoise_kind :: "libs \<Rightarrow> plot \<Rightarrow> int \<Rightarrow> cloud \<Rightarrow> cloud \<times> nat list" where
  "denoise_kind ext self k c =
     (if k = - 1 then
        (let (cleaned, indices) =
               remove_statistical_outlier ext c (py_round (voxel_density self)) (1 / 100)
         in remove_radius_outlier ext cleaned (py_round (voxel_density self * 2))
              (voxel_size self))
      else remove_radius_outlier ext c (py_round (voxel_density self)) (voxel_size self))"

definition clean_kind ::
  "libs \<Rightarrow> plot \<Rightarrow> int \<times> cloud \<Rightarrow> ((int \<times> cloud) \<times> (int \<times> nat list)) run" where
  "clean_kind ext self kc =
     (let k = fst kc;
          res = denoise_kind ext self k (snd kc)
      in rbind (save_cloud self (''class['' @ str_int k @ '']-rm_noise.ply'') (fst res)) (\<lambda>_.
           rpure ((k, fst res), (k, snd res))))"

definition remove_noise ::
  "libs \<Rightarrow> plot \<Rightarrow> nat \<Rightarrow> (plot \<times> (int \<times> cloud) list \<times> (int \<times> nat list) list) run" where
  "remove_noise ext self part =
     (let vox = pcd2voxel ext (pcd self) (Some part);
          self1 = self\<lparr>pcd_voxel := fst vox, voxel_size := fst (snd vox),
                       voxel_density := snd (snd vox)\<rparr>
      in rbind (rmap (clean_kind ext self1) (pcd_classified self1)) (\<lambda>rs.
           rpure (self1, map fst rs, map snd rs)))"

subsection \<open>\<^verbatim>\<open>Plot.__init__\<close>\<close>

text \<open>
  \<^verbatim>\<open>read_ply(file_path)\<close> and \<^verbatim>\<open>read_plys(file_list)\<close> of \<^verbatim>\<open>io/pcd.py\<close> have one parameter
  each. Python binds the arguments of a call before the body runs, and a keyword that is
  not a parameter of the function is a \<^verbatim>\<open>TypeError\<close>.
\<close>

definition py_call :: "string list \<Rightarrow> string list \<Rightarrow> 'a \<Rightarrow> py_error + 'a" where
  "py_call params keywords body =
     (if list_all (\<lambda>k. k \<in> set params) keywords then Inr body else Inl TypeError)"

definition read_ply_params :: "string list" where
  "read_ply_params = [''file_path'']"

definition read_plys_params :: "string list" where
  "read_plys_params = [''file_list'']"

definition read_plys :: "libs \<Rightarrow> string list \<Rightarrow> cloud" where
  "read_plys ext file_list = merge_pcd ext (map (read_ply ext) file_list)"

text \<open>\<^verbatim>\<open>os.path.basename\<close>, the tail of \<^verbatim>\<open>os.path.split\<close>: what follows the last slash.\<close>

definition basename :: "string \<Rightarrow> string" where
  "basename p = rev (takeWhile (\<lambda>ch. ch \<noteq> CHR ''/'') (rev p))"

text \<open>
  Lines 190 to 207 of the constructor: the cloud and the plot's name. Both reads are
  called with the keyword \<^verbatim>\<open>unit\<close>, whatever its value. \<^verbatim>\<open>tail[:-4]\<close> drops the last four
  characters.
\<close>

definition Plot_load :: "libs \<Rightarrow> string \<Rightarrow> py_error + cloud \<times> string" where
  "Plot_load ext path =
     (if isfile ext path then
        ebind (py_call read_ply_params [''unit''] (read_ply ext path)) (\<lambda>loaded.
          let tail = basename (abspath ext path)
          in Inr (loaded, take (length tail - 4) tail))
      else if isdir ext path then
        (let ply_list =
               map (path_join path)
                 (filter (\<lambda>item. isfile ext (path_join path item)
                                 \<and> str_contains ''.ply'' item)
                    (listdir ext path))
         in if ply_list = [] then Inl EOFError
            else ebind (py_call read_plys_params [''unit''] (read_plys ext ply_list)) (\<lambda>loaded.
                   Inr (loaded, basename path)))
      else Inl TypeError)"

definition new_plot :: "string \<Rightarrow> string \<Rightarrow> string \<Rightarrow> bool \<Rightarrow> cloud \<Rightarrow> plot" where
  "new_plot path name out wp c =
     \<lparr>ply_path = path, write_ply = wp, ply_name = name, out_folder = out,
      pcd = c, pcd_classified = [], pcd_cleaned = [], pcd_voxel = [],
      voxel_size = 0, voxel_density = 0, segmented = False,
      pcd_segmented = [], pcd_segmented_name = []\<rparr>"

text \<open>Lines 209 to 227 of the constructor, from the loaded cloud and the plot's name.\<close>

definition Plot_init_loaded ::
  "libs \<Rightarrow> string \<Rightarrow> classifier \<Rightarrow> string \<Rightarrow> bool \<Rightarrow> cloud \<times> string \<Rightarrow> plot run" where
  "Plot_init_loaded ext path c output_path wp loaded =
     (let out = (if wp then path_join output_path (snd loaded) else output_path);
          self0 = new_plot path (snd loaded) out wp (fst loaded)
      in rbind (rdo (if wp then [MakeDir out] else [])) (\<lambda>_.
         rbind (classifier_apply self0 c) (\<lambda>classified.
         rbind (remove_noise ext (self0\<lparr>pcd_classified := classified\<rparr>) 100) (\<lambda>res.
           rpure ((fst res)\<lparr>pcd_cleaned := fst (snd res), segmented := False,
                            pcd_segmented := [], pcd_segmented_name := []\<rparr>)))))"

definition Plot_init :: "libs \<Rightarrow> string \<Rightarrow> classifier \<Rightarrow> string \<Rightarrow> bool \<Rightarrow> plot run" where
  "Plot_init ext path c output_path wp =
     rbind (rlift (Plot_load ext path)) (Plot_init_loaded ext path c output_path wp)"

subsection \<open>\<^verbatim>\<open>Plot.auto_segmentation\<close>\<close>

text \<open>\<^verbatim>\<open>np.unique(a)\<close>: the distinct values, ascending.\<close>

definition np_unique :: "int list \<Rightarrow> int list" where
  "np_unique a = sort (remdups a)"

text \<open>
  Lines 320 to 327: the rows of the descriptor array under each k-means label (a boolean mask
  of another length than the array raises IndexError), and the choice of the plant group by
  the means of the first column.
\<close>

definition mask_rows :: "nat list \<Rightarrow> nat \<Rightarrow> 'a list \<Rightarrow> 'a list" where
  "mask_rows labels v rows = map snd (filter (\<lambda>lr. fst lr = v) (zip labels rows))"

definition group_mean :: "nat list \<Rightarrow> nat \<Rightarrow> (real \<times> real) list \<Rightarrow> npfloat" where
  "group_mean labels v chars = np_mean (map fst (mask_rows labels v chars))"

definition plant_group :: "nat list \<Rightarrow> (real \<times> real) list \<Rightarrow> py_error + nat list" where
  "plant_group labels chars =
     (if length labels \<noteq> length chars then Inl IndexError
      else if nf_gt (group_mean labels 0 chars) (group_mean labels 1 chars)
        then Inr (np_where (\<lambda>l. l = 0) labels)
        else Inr (np_where (\<lambda>l. l = 1) labels))"

text \<open>
  The rows of \<^verbatim>\<open>temp_df\<close> and \<^verbatim>\<open>sort_values(by, ascending)\<close>. pandas sorts descending by
  sorting the reversed frame and reversing the outcome; the order it gives to rows with equal
  keys is its own, and the model's is that of a stable sort.
\<close>

record seg_row =
  row_seg_id :: nat
  row_x :: real
  row_y :: real

definition sort_rows :: "(seg_row \<Rightarrow> real) \<Rightarrow> bool \<Rightarrow> seg_row list \<Rightarrow> seg_row list" where
  "sort_rows key ascending df =
     (if ascending then sort_key key df else rev (sort_key key (rev df)))"

definition row_seg_id_key :: "seg_row \<Rightarrow> real" where
  "row_seg_id_key r = real (row_seg_id r)"

definition sort_values :: "seg_row list \<Rightarrow> string \<Rightarrow> bool \<Rightarrow> py_error + seg_row list" where
  "sort_values df name_by ascending =
     (if name_by = ''x'' then Inr (sort_rows row_x ascending df)
      else if name_by = ''y'' then Inr (sort_rows row_y ascending df)
      else if name_by = ''seg_id'' then Inr (sort_rows row_seg_id_key ascending df)
      else Inl KeyError)"

definition center_row :: "cloud list \<Rightarrow> nat \<Rightarrow> py_error + seg_row" where
  "center_row pcd_seg_list p =
     ebind (py_index pcd_seg_list p) (\<lambda>s.
       Inr \<lparr>row_seg_id = p, row_x = vx (get_center s), row_y = vy (get_center s)\<rparr>)"

fun emit_instances ::
  "plot \<Rightarrow> int \<Rightarrow> cloud list \<Rightarrow> seg_row list \<Rightarrow> nat \<Rightarrow> (cloud \<times> string) list run" where
  "emit_instances self k pcd_seg_list [] i = rpure []"
| "emit_instances self k pcd_seg_list (r # rs) i =
     rbind (rlift (py_index pcd_seg_list (row_seg_id r))) (\<lambda>seg.
       let file_name = ''class['' @ str_int k @ '']-plant'' @ str_nat i
       in rbind (save_cloud self (file_name @ ''.ply'') seg) (\<lambda>_.
          rbind (emit_instances self k pcd_seg_list rs (Suc i)) (\<lambda>rest.
            rpure ((seg, file_name) # rest))))"

definition plot_extent :: "vec3 list \<Rightarrow> py_error + vec2" where
  "plot_extent xyz =
     ebind (np_max (map vx xyz)) (\<lambda>x_max. ebind (np_min (map vx xyz)) (\<lambda>x_min.
     ebind (np_max (map vy xyz)) (\<lambda>y_max. ebind (np_min (map vy xyz)) (\<lambda>y_min.
       Inr (x_max - x_min, y_max - y_min)))))"

definition cluster_clouds :: "cloud \<Rightarrow> int list \<Rightarrow> cloud list" where
  "cluster_clouds c vect =
     map (\<lambda>seg. select_down_sample c (np_where (\<lambda>v. v = seg) vect)) (np_unique vect)"

definition cluster_chars :: "libs \<Rightarrow> cloud list \<Rightarrow> (real \<times> real) list" where
  "cluster_chars ext pcd_seg_list =
     map (\<lambda>s. (sqrt (real (length s)), calculate_xyz_volume ext s)) pcd_seg_list"

definition segment_kind ::
  "libs \<Rightarrow> plot \<Rightarrow> string \<Rightarrow> bool \<Rightarrow> real \<Rightarrow> int \<Rightarrow> string \<Rightarrow> int
     \<Rightarrow> (int \<times> cloud list \<times> string list) run" where
  "segment_kind ext self name_by ascending eps_times min_points img_folder k =
     rbind (rlift (dict_get (pcd_cleaned self) k)) (\<lambda>cleaned.
       let vect = cluster_dbscan ext cleaned (voxel_size self * eps_times) min_points;
           pcd_seg_list = cluster_clouds cleaned vect;
           pcd_seg_char = cluster_chars ext pcd_seg_list
       in rbind (rlift (kmeans2 ext pcd_seg_char)) (\<lambda>labels.
          rbind (rlift (plant_group labels pcd_seg_char)) (\<lambda>plant_id.
          rbind (rlift (emap (center_row pcd_seg_list) plant_id)) (\<lambda>frame.
          rbind (rlift (sort_values frame name_by ascending)) (\<lambda>temp_df.
          rbind (emit_instances self k pcd_seg_list temp_df 0) (\<lambda>out.
            let png = ply_name self @ ''-class['' @ str_int k @ ''].png'';
                savepath = (if img_folder = ''.'' then path_join (out_folder self) png
                            else path_join img_folder png)
            in rbind (rlift (plot_extent (pcd_xyz self))) (\<lambda>len_xyz.
               rbind (rdo [DrawPlotSeg savepath len_xyz]) (\<lambda>_.
                 rpure (k, map fst out, map snd out)))))))))"

definition auto_segmentation ::
  "libs \<Rightarrow> plot \<Rightarrow> string \<Rightarrow> bool \<Rightarrow> real \<Rightarrow> int option \<Rightarrow> string
     \<Rightarrow> (plot \<times> (int \<times> cloud list) list) run" where
  "auto_segmentation ext self name_by ascending eps_times min_points img_folder =
     (let mp = (case min_points of None \<Rightarrow> py_round (voxel_density self) | Some m \<Rightarrow> m);
          kinds = filter (\<lambda>k. k \<noteq> - 1) (map fst (pcd_classified self))
      in rbind (rmap (segment_kind ext self name_by ascending eps_times mp img_folder) kinds)
           (\<lambda>outs.
             let seg_out = map (\<lambda>r. (fst r, fst (snd r))) outs;
                 seg_out_name = map (\<lambda>r. (fst r, snd (snd r))) outs
             in rpure (self\<lparr>segmented := True, pcd_segmented := seg_out,
                             pcd_segmented_name := seg_out_name\<rparr>, seg_out)))"

subsection \<open>\<^verbatim>\<open>Plot.shp_segmentation\<close>\<close>

definition shp_boundary :: "real \<Rightarrow> real \<Rightarrow> vec3 list \<Rightarrow> boundary" where
  "shp_boundary a_max a_min polygon =
     \<lparr>orthogonal_axis = ''Z'', bounding_polygon = polygon, axis_max = a_max, axis_min = a_min\<rparr>"

definition crop_polygon ::
  "libs \<Rightarrow> plot \<Rightarrow> real \<Rightarrow> real \<Rightarrow> int \<Rightarrow> cloud \<Rightarrow> string \<times> vec3 list \<Rightarrow> (cloud \<times> string) run" where
  "crop_polygon ext self a_max a_min k cleaned named =
     (let roi = crop_point_cloud ext (shp_boundary a_max a_min (snd named)) cleaned;
          file_name = ''class['' @ str_int k @ '']-'' @ fst named
      in rbind (save_cloud self (file_name @ ''.ply'') roi) (\<lambda>_. rpure (roi, file_name)))"

definition crop_kind ::
  "libs \<Rightarrow> plot \<Rightarrow> real \<Rightarrow> real \<Rightarrow> (string \<times> vec3 list) list \<Rightarrow> int \<times> cloud
     \<Rightarrow> (int \<times> cloud list \<times> string list) run" where
  "crop_kind ext self a_max a_min shp_seg kc =
     rbind (rmap (crop_polygon ext self a_max a_min (fst kc) (snd kc)) shp_seg) (\<lambda>out.
       rpure (fst kc, map fst out, map snd out))"

definition shp_segmentation ::
  "libs \<Rightarrow> plot \<Rightarrow> shp_src \<Rightarrow> bool \<Rightarrow> (plot \<times> (int \<times> cloud list) list) run" where
  "shp_segmentation ext self shp_dir rename =
     (let shp_seg = read_shp ext shp_dir rename
      in rbind (rlift (np_max (map vz (pcd_xyz self)))) (\<lambda>a_max.
         rbind (rlift (np_min (map vz (pcd_xyz self)))) (\<lambda>a_min.
         rbind (rmap (crop_kind ext self a_max a_min shp_seg)
                  (filter (\<lambda>kc. fst kc \<noteq> - 1) (pcd_cleaned self))) (\<lambda>outs.
           let seg_out = map (\<lambda>r. (fst r, fst (snd r))) outs;
               seg_out_name = map (\<lambda>r. (fst r, snd (snd r))) outs
           in rpure (self\<lparr>segmented := True, pcd_segmented := seg_out,
                           pcd_segmented_name := seg_out_name\<rparr>, seg_out)))))"

section \<open>\<^verbatim>\<open>Plant\<close>\<close>

record plant =
  plant_pcd :: cloud
  center :: vec3
  plant_indices :: nat
  ground_pcd :: cloud
  plane_hull :: "vec2 list"
  hull_area :: real
  width :: real
  length_m :: real
  centroid :: vec2
  major_axis :: real
  minor_axis :: real
  orient_degree :: real
  pla :: real
  pctl_ht :: npfloat
  pctl_ht_plot :: plot_use
  plant_voxel :: "cloud \<times> real \<times> real"

definition clip_background :: "libs \<Rightarrow> vec3 list \<Rightarrow> cloud \<Rightarrow> py_error + cloud" where
  "clip_background ext xyz ground =
     ebind (np_max (map vx xyz)) (\<lambda>x_max. ebind (np_min (map vx xyz)) (\<lambda>x_min.
     ebind (np_max (map vy xyz)) (\<lambda>y_max. ebind (np_min (map vy xyz)) (\<lambda>y_min.
       let x_len = x_max - x_min;
           y_len = y_max - y_min;
           polygon = [(x_min - x_len * (1 / 10), y_min - y_len * (1 / 10), 0),
                      (x_min - x_len * (1 / 10), y_max + y_len * (1 / 10), 0),
                      (x_max + x_len * (1 / 10), y_max + y_len * (1 / 10), 0),
                      (x_max + x_len * (1 / 10), y_min - y_len * (1 / 10), 0),
                      (x_min - x_len * (1 / 10), y_min - y_len * (1 / 10), 0)]
       in ebind (np_max (map vz (cloud_xyz ground))) (\<lambda>z_max.
          ebind (np_min (map vz (cloud_xyz ground))) (\<lambda>z_min.
            Inr (crop_point_cloud ext (build_cut_boundary ext polygon (z_min, z_max))
                   ground)))))))"

text \<open>Python's \<^verbatim>\<open>a / b\<close> on floats.\<close>

definition py_div :: "real \<Rightarrow> real \<Rightarrow> py_error + real" where
  "py_div a b = (if b = 0 then Inl ZeroDivisionError else Inr (a / b))"

definition get_region_props ::
  "libs \<Rightarrow> binary_img \<Rightarrow> real \<Rightarrow> vec2 \<Rightarrow> py_error + vec2 \<times> real \<times> real \<times> real" where
  "get_region_props ext binary px_num_per_cm corner =
     ebind (py_index (regionprops ext binary) 0) (\<lambda>props.
     ebind (py_div (snd (region_centroid props)) px_num_per_cm) (\<lambda>x0.
     ebind (py_div (fst (region_centroid props)) px_num_per_cm) (\<lambda>y0.
     ebind (py_div (major_axis_length props) px_num_per_cm) (\<lambda>major.
     ebind (py_div (minor_axis_length props) px_num_per_cm) (\<lambda>minor.
       Inr ((x0 / 100 + fst corner, y0 / 100 + snd corner), major / 100, minor / 100,
            - orientation props * 180 / pi))))))"

text \<open>\<^verbatim>\<open>np.unique(binary, return_counts=True)\<close>: the distinct pixel values, ascending, each
  with the number of its occurrences.\<close>

definition np_unique_counts :: "binary_img \<Rightarrow> (nat \<times> nat) list" where
  "np_unique_counts binary =
     map (\<lambda>v. (v, count_list (concat binary) v)) (sort (remdups (concat binary)))"

definition get_projected_leaf_area :: "binary_img \<Rightarrow> real \<Rightarrow> py_error + real" where
  "get_projected_leaf_area binary px_num_per_cm =
     ebind (py_index (map snd (np_unique_counts binary)) 1) (\<lambda>fore_num.
     ebind (py_div 1 px_num_per_cm) (\<lambda>side.
       Inr (real fore_num * side ^ 2)))"

definition Plant_init ::
  "libs \<Rightarrow> cloud \<Rightarrow> nat \<Rightarrow> cloud \<Rightarrow> bool \<Rightarrow> real \<Rightarrow> ground_ht \<Rightarrow> py_error + plant" where
  "Plant_init ext pcd_input idx ground cut_bg container_ht ght =
     ebind (if cut_bg then clip_background ext (cloud_xyz pcd_input) ground else Inr ground)
       (\<lambda>clipped.
     ebind (convex_hull2d ext pcd_input) (\<lambda>hull2d.
     ebind (min_bounding_rect ext (fst hull2d)) (\<lambda>rect.
     ebind (pcd2binary ext pcd_input) (\<lambda>img.
     ebind (get_region_props ext (fst img) (fst (snd img)) (snd (snd img))) (\<lambda>props.
     ebind (get_projected_leaf_area (fst img) (fst (snd img))) (\<lambda>area.
     ebind (get_percentile_height (gaussian_kde ext) (map vz (cloud_xyz pcd_input))
              (map vz (cloud_xyz clipped)) container_ht ght) (\<lambda>ht.
       Inr \<lparr>plant_pcd = pcd_input, center = get_center pcd_input, plant_indices = idx,
            ground_pcd = clipped, plane_hull = fst hull2d, hull_area = snd hull2d,
            width = rect_width rect, length_m = rect_length rect,
            centroid = fst props, major_axis = fst (snd props),
            minor_axis = fst (snd (snd props)), orient_degree = snd (snd (snd props)),
            pla = area, pctl_ht = fst ht, pctl_ht_plot = snd ht,
            plant_voxel = pcd2voxel ext pcd_input None\<rparr>)))))))"

section \<open>\<^verbatim>\<open>Plot.get_traits\<close>\<close>

record trait_row =
  t_plot :: string
  t_plant :: nat
  t_kind :: int
  center_x :: real
  center_y :: real
  min_rect_width :: real
  min_rect_length :: real
  hover_area :: real
  t_pla :: real
  centroid_x :: real
  centroid_y :: real
  long_axis :: real
  short_axis :: real
  orient_deg2xaxis :: real
  percentile_height :: npfloat

definition trait_of :: "plot \<Rightarrow> int \<Rightarrow> nat \<Rightarrow> plant \<Rightarrow> trait_row" where
  "trait_of self k i p =
     \<lparr>t_plot = ply_name self, t_plant = i, t_kind = k,
      center_x = vx (center p), center_y = vy (center p),
      min_rect_width = width p, min_rect_length = length_m p,
      hover_area = hull_area p, t_pla = pla p,
      centroid_x = fst (centroid p), centroid_y = snd (centroid p),
      long_axis = major_axis p, short_axis = minor_axis p,
      orient_deg2xaxis = orient_degree p, percentile_height = pctl_ht p\<rparr>"

definition draw_instance :: "plot \<Rightarrow> bool \<Rightarrow> int \<Rightarrow> nat \<Rightarrow> unit run" where
  "draw_instance self savefig k i =
     (if savefig \<and> write_ply self then
        rbind (rlift (dict_get (pcd_segmented_name self) k)) (\<lambda>names.
        rbind (rlift (py_index names i)) (\<lambda>file_name.
          rdo [Draw3dResults (out_folder self @ ''/'' @ file_name @ ''.png'')]))
      else rpure ())"

definition instance_traits ::
  "libs \<Rightarrow> plot \<Rightarrow> real \<Rightarrow> ground_ht \<Rightarrow> bool \<Rightarrow> int \<Rightarrow> nat \<times> cloud \<Rightarrow> trait_row run" where
  "instance_traits ext self container_ht ght savefig k iseg =
     rbind (rlift (dict_get (pcd_classified self) (- 1))) (\<lambda>ground.
     rbind (rlift (Plant_init ext (snd iseg) (fst iseg) ground True container_ht ght)) (\<lambda>p.
     rbind (draw_instance self savefig k (fst iseg)) (\<lambda>_.
       rpure (trait_of self k (fst iseg) p))))"

definition kind_traits ::
  "libs \<Rightarrow> plot \<Rightarrow> real \<Rightarrow> ground_ht \<Rightarrow> bool \<Rightarrow> int \<times> cloud list \<Rightarrow> trait_row list run" where
  "kind_traits ext self container_ht ght savefig ksegs =
     rmap (instance_traits ext self container_ht ght savefig (fst ksegs))
       (enumerate 0 (snd ksegs))"

definition get_traits ::
  "libs \<Rightarrow> plot \<Rightarrow> real \<Rightarrow> ground_ht \<Rightarrow> bool \<Rightarrow> trait_row list run" where
  "get_traits ext self container_ht ght savefig =
     (if \<not> segmented self then rlift (Inl AttributeError)
      else rbind (rmap (kind_traits ext self container_ht ght savefig) (pcd_segmented self))
             (\<lambda>tables. rpure (concat tables)))"

section \<open>The write flag\<close>

text \<open>
  The side files of a run are gated by \<^verbatim>\<open>write_ply\<close>. To compare a run with the flag set
  and one without, \<open>set_flag\<close> changes the flag and the output folder of a plot and nothing
  else. \<open>names_cover\<close> says that the plot holds a name for every segmented instance, as it
  does after either segmentation.
\<close>

fun is_seg_image :: "effect \<Rightarrow> bool" where
  "is_seg_image (DrawPlotSeg savepath extent) = True"
| "is_seg_image (MakeDir d) = False"
| "is_seg_image (WritePointCloud f c) = False"
| "is_seg_image (Draw3dResults f) = False"

definition set_flag :: "bool \<Rightarrow> string \<Rightarrow> plot \<Rightarrow> plot" where
  "set_flag wp out self = self\<lparr>write_ply := wp, out_folder := out\<rparr>"

definition names_cover :: "plot \<Rightarrow> bool" where
  "names_cover self =
     list_all (\<lambda>ksegs.
         case map_of (pcd_segmented_name self) (fst ksegs) of
           None \<Rightarrow> False
         | Some names \<Rightarrow> length (snd ksegs) \<le> length names)
       (pcd_segmented self)"

section \<open>A concrete instance of the libraries\<close>

text \<open>
  The worked examples below need the library functions as concrete functions. These are
  small stand-ins of the right types: a nearest-sample classifier for the decision tree,
  filters that keep every point, clustering by intervals of x, a k-means that separates
  clusters of at least two points from single points, and cropping by the polygon's bounding
  box. The general theorems hold for every instance of the record.
\<close>

definition sq_dist :: "vec3 \<Rightarrow> vec3 \<Rightarrow> real" where
  "sq_dist a b = (vx a - vx b) ^ 2 + (vy a - vy b) ^ 2 + (vz a - vz b) ^ 2"

fun nearest_label :: "vec3 \<Rightarrow> (vec3 \<times> int) list \<Rightarrow> vec3 \<times> int \<Rightarrow> int" where
  "nearest_label v [] best = snd best"
| "nearest_label v (s # samples) best =
     nearest_label v samples (if sq_dist v (fst s) < sq_dist v (fst best) then s else best)"

definition nearest_fit :: "vec3 list \<Rightarrow> int list \<Rightarrow> py_error + (vec3 \<Rightarrow> int)" where
  "nearest_fit X y =
     (if X = [] \<or> length X \<noteq> length y then Inl ValueError
      else Inr (\<lambda>v. nearest_label v (zip X y) (hd (zip X y))))"

definition demo_imread :: "string \<Rightarrow> pixel list" where
  "demo_imread p =
     (if p = ''back.png'' then [(102, 51, 0, 255), (0, 0, 0, 0)] else [(0, 255, 0, 255)])"

definition demo_cloud :: cloud where
  "demo_cloud =
     [((0, 0, 0), (2 / 5, 1 / 5, 0)), ((1, 1, 1), (0, 1, 0)), ((1, 2, 2), (0, 1, 0))]"

definition keep_all :: "cloud \<Rightarrow> int \<Rightarrow> real \<Rightarrow> cloud \<times> nat list" where
  "keep_all c n r = (c, [0..<length c])"

definition interval_dbscan :: "cloud \<Rightarrow> real \<Rightarrow> int \<Rightarrow> int list" where
  "interval_dbscan c eps min_points =
     map (\<lambda>p. if vx (fst p) < 1 then 1 else if vx (fst p) < 3 then 0 else - 1) c"

definition size_kmeans :: "(real \<times> real) list \<Rightarrow> py_error + nat list" where
  "size_kmeans chars =
     (if length chars < 2 then Inl ValueError
      else Inr (map (\<lambda>ch. if 2 \<le> snd ch then 0 else 1) chars))"

definition in_box :: "boundary \<Rightarrow> point \<Rightarrow> bool" where
  "in_box b p =
     (axis_min b \<le> vz (fst p) \<and> vz (fst p) \<le> axis_max b
      \<and> list_ex (\<lambda>q. vx q \<le> vx (fst p)) (bounding_polygon b)
      \<and> list_ex (\<lambda>q. vx (fst p) \<le> vx q) (bounding_polygon b)
      \<and> list_ex (\<lambda>q. vy q \<le> vy (fst p)) (bounding_polygon b)
      \<and> list_ex (\<lambda>q. vy (fst p) \<le> vy q) (bounding_polygon b))"

definition box_crop :: "boundary \<Rightarrow> cloud \<Rightarrow> cloud" where
  "box_crop b c = filter (in_box b) c"

definition demo_shp :: "(string \<times> vec3 list) list" where
  "demo_shp =
     [(''east'', [(2, 0, 0), (2, 3, 0), (3, 3, 0), (3, 0, 0)]),
      (''west'', [(0, 0, 0), (0, 3, 0), (1, 3, 0), (1, 0, 0)])]"

definition demo_hull :: "cloud \<Rightarrow> py_error + vec2 list \<times> real" where
  "demo_hull c =
     (if length (remdups (map (\<lambda>p. (vx (fst p), vy (fst p))) c)) < 3 then Inl QhullError
      else Inr (map (\<lambda>p. (vx (fst p), vy (fst p))) c, 1))"

definition demo_libs :: libs where
  "demo_libs =
     \<lparr>imread = demo_imread,
      read_ply = (\<lambda>p. demo_cloud),
      merge_pcd = concat,
      isfile = (\<lambda>p. p = ''S03.ply''),
      isdir = (\<lambda>p. False),
      listdir = (\<lambda>p. []),
      abspath = (\<lambda>p. ''/data/'' @ p),
      tree_fit = nearest_fit,
      pcd2voxel = (\<lambda>c part. ([], 1 / 10, 5 / 2)),
      remove_statistical_outlier = keep_all,
      remove_radius_outlier = keep_all,
      cluster_dbscan = interval_dbscan,
      calculate_xyz_volume = (\<lambda>c. real (length c)),
      kmeans2 = size_kmeans,
      read_shp = (\<lambda>src rename. demo_shp),
      crop_point_cloud = box_crop,
      build_cut_boundary = (\<lambda>polygon zr. shp_boundary (snd zr) (fst zr) polygon),
      convex_hull2d = demo_hull,
      min_bounding_rect =
        (\<lambda>h. Inr \<lparr>rot_angle = 0, rect_area = 1, rect_width = 1, rect_length = 1\<rparr>),
      pcd2binary = (\<lambda>c. Inr ([[0, 1], [1, 1]], 1, (0, 0))),
      regionprops =
        (\<lambda>b. [\<lparr>region_centroid = (1, 1), major_axis_length = 2, minor_axis_length = 1,
                 orientation = 0\<rparr>]),
      gaussian_kde = flat_kde\<rparr>"

text \<open>
  The classifier built from one background and one plant image, and the small plot that
  lines 209 to 227 of the constructor build with it from the loaded cloud: one ground point
  and two plant points, classified and cleaned, nothing written.
\<close>

definition demo_classifier :: classifier where
  "demo_classifier =
     \<lparr>path_list = [Path ''back.png'', Path ''fore.png''],
      kind_list = [- 1, 0],
      train_data = [(2 / 5, 1 / 5, 0), (0, 1, 0)],
      train_kind = [- 1, 0],
      kind_set = [- 1, 0],
      clf = Some (DecisionTreeClassifier
              (\<lambda>v. nearest_label v [((2 / 5, 1 / 5, 0), - 1), ((0, 1, 0), 0)]
                     ((2 / 5, 1 / 5, 0), - 1)))\<rparr>"


definition demo_plot :: plot where
  "demo_plot =
     (new_plot ''S03.ply'' ''S03'' ''.'' False demo_cloud)
       \<lparr>pcd_classified :=
          [(- 1, [((0, 0, 0), (2 / 5, 1 / 5, 0))]),
           (0, [((1, 1, 1), (0, 1, 0)), ((1, 2, 2), (0, 1, 0))])],
        pcd_cleaned :=
          [(- 1, [((0, 0, 0), (2 / 5, 1 / 5, 0))]),
           (0, [((1, 1, 1), (0, 1, 0)), ((1, 2, 2), (0, 1, 0))])],
        voxel_size := 1 / 10,
        voxel_density := 5 / 2\<rparr>"

text \<open>
  A plot with two plants of four points each and one stray point in the plant class, already
  classified and cleaned.
\<close>

definition orchard_plants :: cloud where
  "orchard_plants =
     [((2, 1, 1), (0, 1, 0)), ((2, 2, 2), (0, 1, 0)),
      ((5 / 2, 1, 3), (0, 1, 0)), ((5 / 2, 2, 4), (0, 1, 0)),
      ((0, 1, 1), (0, 1, 0)), ((0, 2, 2), (0, 1, 0)),
      ((1 / 2, 1, 3), (0, 1, 0)), ((1 / 2, 2, 4), (0, 1, 0)),
      ((5, 5, 1), (0, 1, 0))]"

definition orchard_ground :: cloud where
  "orchard_ground =
     [((0, 0, 0), (2 / 5, 1 / 5, 0)), ((9 / 4, 3 / 2, 0), (2 / 5, 1 / 5, 0)),
      ((9 / 4, 1, 1 / 10), (2 / 5, 1 / 5, 0)), ((5, 5, 0), (2 / 5, 1 / 5, 0))]"

definition orchard_plot :: plot where
  "orchard_plot =
     (new_plot ''S03.ply'' ''S03'' ''.'' False (orchard_ground @ orchard_plants))
       \<lparr>pcd_classified := [(- 1, orchard_ground), (0, orchard_plants)],
        pcd_cleaned := [(- 1, orchard_ground), (0, orchard_plants)],
        voxel_size := 1 / 10,
        voxel_density := 5 / 2\<rparr>"

text \<open>The same plot after automatic segmentation by x, ascending.\<close>

definition west_plant :: cloud where
  "west_plant =
     [((0, 1, 1), (0, 1, 0)), ((0, 2, 2), (0, 1, 0)),
      ((1 / 2, 1, 3), (0, 1, 0)), ((1 / 2, 2, 4), (0, 1, 0))]"

definition east_plant :: cloud where
  "east_plant =
     [((2, 1, 1), (0, 1, 0)), ((2, 2, 2), (0, 1, 0)),
      ((5 / 2, 1, 3), (0, 1, 0)), ((5 / 2, 2, 4), (0, 1, 0))]"

definition orchard_segmented :: plot where
  "orchard_segmented =
     orchard_plot
       \<lparr>segmented := True,
        pcd_segmented := [(0, [west_plant, east_plant])],
        pcd_segmented_name := [(0, [''class[0]-plant0'', ''class[0]-plant1''])]\<rparr>"


section \<open>The percentile height\<close>

lemma np_percentile_spec: "a \<noteq> [] \<Longrightarrow> np_percentile a q = Inr (spec_percentile a q)"
  by (simp add: np_percentile_def spec_percentile_def Let_def algebra_simps)

lemma np_median_spec: "a \<noteq> [] \<Longrightarrow> np_median a = Num (spec_median a)"
  by (simp add: np_median_def spec_median_def Let_def)

lemma ground_sample_spec: "z \<noteq> [] \<Longrightarrow> ground_sample z ground = Inr (spec_ground_sample z ground)"
  by (simp add: ground_sample_def spec_ground_sample_def np_percentile_spec ebind_def)

lemma density_estimated_nonempty: "density_estimated kde gs \<Longrightarrow> gs \<noteq> []"
  by (auto simp: density_estimated_def ebind_def np_min_def)

lemma ground_elevation_spec:
  assumes "z \<noteq> []" and "density_estimated kde (spec_ground_sample z ground)"
  shows "ground_elevation kde z ground = Inr (Num (spec_median (spec_ground_sample z ground)))"
proof -
  have ne: "spec_ground_sample z ground \<noteq> []"
    using assms(2) by (rule density_estimated_nonempty)
  show ?thesis
    using assms ne
    by (auto simp: ground_elevation_def ground_sample_spec ebind_def density_estimated_def
        np_median_spec Let_def split: sum.splits)
qed

lemma ground_elevation_returns:
  assumes "ground_elevation kde z ground = Inr ele"
  shows "z \<noteq> [] \<and> density_estimated kde (spec_ground_sample z ground)
         \<and> ele = Num (spec_median (spec_ground_sample z ground))"
proof -
  have z: "z \<noteq> []"
    using assms
    by (auto simp: ground_elevation_def ground_sample_def np_percentile_def ebind_def)
  from assms have run: "ebind (np_min (spec_ground_sample z ground)) (\<lambda>lo.
        ebind (np_max (spec_ground_sample z ground)) (\<lambda>hi.
          ebind (kde (spec_ground_sample z ground) (np_linspace lo hi 1000)) (\<lambda>ele_hist_num.
            Inr (np_median (spec_ground_sample z ground))))) = Inr ele"
    by (simp add: ground_elevation_def ground_sample_spec [OF z] Let_def ebind_def)
  then have de: "density_estimated kde (spec_ground_sample z ground)"
    by (auto simp: density_estimated_def ebind_def split: sum.splits)
  then have ne: "spec_ground_sample z ground \<noteq> []"
    by (rule density_estimated_nonempty)
  from run have "ele = Num (spec_median (spec_ground_sample z ground))"
    by (auto simp: ebind_def np_median_spec [OF ne] split: sum.splits)
  with z de show ?thesis by simp
qed

lemma ground_elevation_raises:
  assumes "\<not> density_estimated kde (spec_ground_sample z ground)"
  shows "\<exists>e. ground_elevation kde z ground = Inl e"
proof (cases "ground_elevation kde z ground")
  case (Inl e)
  then show ?thesis by blast
next
  case (Inr ele)
  with assms show ?thesis by (simp add: ground_elevation_returns)
qed

lemma height_as_specified:
  assumes auto: "ght = Auto \<Longrightarrow> density_estimated kde (spec_ground_sample z ground)"
    and above: "spec_above_base z ground container_ht ght \<noteq> []"
  shows "map_sum id fst (get_percentile_height kde z ground container_ht ght)
         = Inr (spec_percentile_height z ground container_ht ght)"
proof -
  have z: "z \<noteq> []" using above by (auto simp: spec_above_base_def)
  have ele: "(case ght of Auto \<Rightarrow> ground_elevation kde z ground | Fixed g \<Rightarrow> Inr (Num g))
        = Inr (Num (spec_plant_base z ground container_ht ght - container_ht))"
    using auto z by (cases ght) (simp_all add: ground_elevation_spec spec_plant_base_def)
  have pa: "points_above (Num (spec_plant_base z ground container_ht ght)) z
        = spec_above_base z ground container_ht ght"
    by (simp add: points_above_def spec_above_base_def)
  show ?thesis
    using above
    by (simp add: get_percentile_height_def ele ebind_def Let_def pa np_percentile_spec
        np_mean_def spec_percentile_height_def)
qed

lemma height_density_raises:
  assumes "\<not> density_estimated kde (spec_ground_sample z ground)"
  shows "\<exists>e. get_percentile_height kde z ground container_ht Auto = Inl e"
proof -
  from ground_elevation_raises [OF assms] obtain e where
    "ground_elevation kde z ground = Inl e" ..
  then show ?thesis by (simp add: get_percentile_height_def ebind_def)
qed

lemma height_nothing_above:
  assumes "spec_above_base z ground container_ht ght = []"
  shows "\<exists>e. get_percentile_height kde z ground container_ht ght = Inl e"
proof (cases "case ght of Auto \<Rightarrow> ground_elevation kde z ground | Fixed g \<Rightarrow> Inr (Num g)")
  case (Inl e)
  then show ?thesis by (simp add: get_percentile_height_def ebind_def)
next
  case (Inr ele)
  then have "ele = Num (spec_plant_base z ground container_ht ght - container_ht)"
    by (cases ght) (auto simp: spec_plant_base_def dest: ground_elevation_returns)
  then have "points_above (nf_add ele (Num container_ht)) z = []"
    using assms by (simp add: points_above_def spec_above_base_def)
  with Inr show ?thesis
    by (simp add: get_percentile_height_def ebind_def Let_def np_percentile_def)
qed

text \<open>
  C2, as the code has it. The values of the density estimate do not enter the height, but
  the estimate is computed before the median is taken, on the ground sample and the 1000
  grid points between its minimum and its maximum. When that computation runs through
  (automatic mode) and some instance point lies above the base, the code returns exactly
  the height of the specification: the ground sample below the 5th percentile, its median
  as elevation, base = elevation + container height, top = mean of the points above the
  base that exceed their 90th percentile, height = top - base; with a fixed ground height
  the same holds with that value as the elevation, and neither the ground sample nor the
  density estimate is computed. When the density estimate does not run through, the
  automatic mode returns no height; and in either mode no height is returned when no
  instance point lies above the base.
\<close>

theorem percentile_height_as_specified:
  "((ght = Auto \<longrightarrow> density_estimated kde (spec_ground_sample z ground))
      \<and> spec_above_base z ground container_ht ght \<noteq> [] \<longrightarrow>
      map_sum id fst (get_percentile_height kde z ground container_ht ght)
      = Inr (spec_percentile_height z ground container_ht ght))
   \<and> (\<not> density_estimated kde (spec_ground_sample z ground) \<longrightarrow>
        (\<exists>e. get_percentile_height kde z ground container_ht Auto = Inl e))
   \<and> (spec_above_base z ground container_ht ght = [] \<longrightarrow>
        (\<exists>e. get_percentile_height kde z ground container_ht ght = Inl e))"
  using height_as_specified [of ght kde z ground container_ht]
    height_density_raises [of kde z ground container_ht]
    height_nothing_above [of z ground container_ht ght kde]
  by blast

theorem percentile_height_as_specified_witness:
  "density_estimated flat_kde (spec_ground_sample [1, 2, 3, 4, 5] [0, 1, 3])
   \<and> spec_above_base [1, 2, 3, 4, 5] [0, 1, 3] 0 Auto \<noteq> []
   \<and> map_sum id fst (get_percentile_height flat_kde [1, 2, 3, 4, 5] [0, 1, 3] 0 Auto)
       = Inr (Num (9 / 2))
   \<and> spec_above_base [1, 2, 3, 4, 5] [0, 1, 3] (1 / 2) (Fixed 1) \<noteq> []
   \<and> map_sum id fst (get_percentile_height flat_kde [1, 2, 3, 4, 5] [0, 1, 3] (1 / 2) (Fixed 1))
       = Inr (Num (7 / 2))
   \<and> \<not> density_estimated flat_kde (spec_ground_sample [1, 2, 3, 4, 5] [0, 0, 3])
   \<and> (\<exists>e. get_percentile_height flat_kde [1, 2, 3, 4, 5] [0, 0, 3] 0 Auto = Inl e)
   \<and> spec_above_base [1, 2, 3, 4, 5] [0, 1, 3] 0 (Fixed 5) = []
   \<and> (\<exists>e. get_percentile_height flat_kde [1, 2, 3, 4, 5] [0, 1, 3] 0 (Fixed 5) = Inl e)"
proof -
  have p5: "spec_percentile [1, 2, 3, 4, 5] 5 = 6 / 5"
    by (simp add: spec_percentile_def Let_def)
  have gs: "spec_ground_sample [1, 2, 3, 4, 5] [0, 1, 3] = [0, 1]"
    by (simp add: spec_ground_sample_def p5)
  have gs0: "spec_ground_sample [1, 2, 3, 4, 5] [0, 0, 3] = [0, 0]"
    by (simp add: spec_ground_sample_def p5)
  have h1: "density_estimated flat_kde (spec_ground_sample [1, 2, 3, 4, 5] [0, 1, 3])"
    by (simp add: gs density_estimated_def flat_kde_def ebind_def np_min_def np_max_def)
  have h4: "\<not> density_estimated flat_kde (spec_ground_sample [1, 2, 3, 4, 5] [0, 0, 3])"
    by (simp add: gs0 density_estimated_def flat_kde_def ebind_def np_min_def np_max_def)
  have base_a: "spec_plant_base [1, 2, 3, 4, 5] [0, 1, 3] 0 Auto = 1 / 2"
    by (simp add: spec_plant_base_def gs spec_median_def Let_def)
  have ab_a: "spec_above_base [1, 2, 3, 4, 5] [0, 1, 3] 0 Auto = [1, 2, 3, 4, 5]"
    by (simp add: spec_above_base_def base_a)
  have base_f: "spec_plant_base [1, 2, 3, 4, 5] [0, 1, 3] (1 / 2) (Fixed 1) = 3 / 2"
    by (simp add: spec_plant_base_def)
  have ab_f: "spec_above_base [1, 2, 3, 4, 5] [0, 1, 3] (1 / 2) (Fixed 1) = [2, 3, 4, 5]"
    by (simp add: spec_above_base_def base_f)
  have p90_a: "spec_percentile [1, 2, 3, 4, 5] 90 = 23 / 5"
    by (simp add: spec_percentile_def Let_def)
  have p90_f: "spec_percentile [2, 3, 4, 5] 90 = 47 / 10"
    by (simp add: spec_percentile_def Let_def)
  have v_a: "spec_percentile_height [1, 2, 3, 4, 5] [0, 1, 3] 0 Auto = Num (9 / 2)"
    by (simp add: spec_percentile_height_def base_a ab_a p90_a Let_def)
  have v_f: "spec_percentile_height [1, 2, 3, 4, 5] [0, 1, 3] (1 / 2) (Fixed 1) = Num (7 / 2)"
    by (simp add: spec_percentile_height_def base_f ab_f p90_f Let_def)
  have h2: "spec_above_base [1, 2, 3, 4, 5] [0, 1, 3] 0 Auto \<noteq> []"
    by (simp add: ab_a)
  have h3: "spec_above_base [1, 2, 3, 4, 5] [0, 1, 3] (1 / 2) (Fixed 1) \<noteq> []"
    by (simp add: ab_f)
  have h5: "spec_above_base [1, 2, 3, 4, 5] [0, 1, 3] 0 (Fixed 5) = []"
    by (simp add: spec_above_base_def spec_plant_base_def)
  have r_a: "map_sum id fst (get_percentile_height flat_kde [1, 2, 3, 4, 5] [0, 1, 3] 0 Auto)
       = Inr (Num (9 / 2))"
    using percentile_height_as_specified
      [where ght = Auto and kde = flat_kde and z = "[1, 2, 3, 4, 5]" and ground = "[0, 1, 3]"
         and container_ht = 0] h1 h2
    by (simp add: v_a)
  have r_f: "map_sum id fst
        (get_percentile_height flat_kde [1, 2, 3, 4, 5] [0, 1, 3] (1 / 2) (Fixed 1))
       = Inr (Num (7 / 2))"
    using percentile_height_as_specified
      [where ght = "Fixed 1" and kde = flat_kde and z = "[1, 2, 3, 4, 5]"
         and ground = "[0, 1, 3]" and container_ht = "1 / 2"] h3
    by (simp add: v_f)
  have r_d: "\<exists>e. get_percentile_height flat_kde [1, 2, 3, 4, 5] [0, 0, 3] 0 Auto = Inl e"
    using percentile_height_as_specified
      [where ght = Auto and kde = flat_kde and z = "[1, 2, 3, 4, 5]" and ground = "[0, 0, 3]"
         and container_ht = 0] h4
    by blast
  have r_n: "\<exists>e. get_percentile_height flat_kde [1, 2, 3, 4, 5] [0, 1, 3] 0 (Fixed 5) = Inl e"
    using percentile_height_as_specified
      [where ght = "Fixed 5" and kde = flat_kde and z = "[1, 2, 3, 4, 5]"
         and ground = "[0, 1, 3]" and container_ht = 0] h5
    by blast
  show ?thesis using h1 h2 h3 h4 h5 r_a r_f r_d r_n by simp
qed

text \<open>
  The height of the specification exists and the code returns none: only one ground point,
  0, lies below the 5th percentile 1.2 of the instance, the density estimate refuses a
  sample of one point, and the median, 0, is never taken. The formula gives base 0 and
  top 5, the mean of the points above the 90th percentile 4.6.
\<close>

theorem density_estimate_failure_returns_no_height:
  "spec_ground_sample [1, 2, 3, 4, 5] [0, 3] = [0]
   \<and> spec_percentile_height [1, 2, 3, 4, 5] [0, 3] 0 Auto = Num 5
   \<and> get_percentile_height flat_kde [1, 2, 3, 4, 5] [0, 3] 0 Auto = Inl ValueError"
proof -
  have p5: "spec_percentile [1, 2, 3, 4, 5] 5 = 6 / 5"
    by (simp add: spec_percentile_def Let_def)
  have gs: "spec_ground_sample [1, 2, 3, 4, 5] [0, 3] = [0]"
    by (simp add: spec_ground_sample_def p5)
  have base: "spec_plant_base [1, 2, 3, 4, 5] [0, 3] 0 Auto = 0"
    by (simp add: spec_plant_base_def gs spec_median_def Let_def)
  have ab: "spec_above_base [1, 2, 3, 4, 5] [0, 3] 0 Auto = [1, 2, 3, 4, 5]"
    by (simp add: spec_above_base_def base)
  have p90: "spec_percentile [1, 2, 3, 4, 5] 90 = 23 / 5"
    by (simp add: spec_percentile_def Let_def)
  have v: "spec_percentile_height [1, 2, 3, 4, 5] [0, 3] 0 Auto = Num 5"
    by (simp add: spec_percentile_height_def base ab p90 Let_def)
  have c: "get_percentile_height flat_kde [1, 2, 3, 4, 5] [0, 3] 0 Auto = Inl ValueError"
    by (simp add: get_percentile_height_def ground_elevation_def ground_sample_def ebind_def
        np_percentile_def Let_def np_min_def np_max_def flat_kde_def)
  from gs v c show ?thesis by simp
qed

lemma ground_elevation_empty_sample:
  "ground_sample z ground = Inr [] \<Longrightarrow> ground_elevation kde z ground = Inl ValueError"
  by (simp add: ground_elevation_def ebind_def np_min_def)

lemma height_no_point_above:
  assumes "(case ght of Auto \<Rightarrow> ground_elevation kde z ground | Fixed g \<Rightarrow> Inr (Num g)) = Inr ele"
    and "points_above (nf_add ele (Num container_ht)) z = []"
  shows "get_percentile_height kde z ground container_ht ght = Inl IndexError"
  using assms by (simp add: get_percentile_height_def ebind_def Let_def np_percentile_def)

text \<open>
  C3, as the code has it. In the automatic mode an empty ground sample raises ValueError (the
  minimum of an empty array). In either mode, when no instance point lies above the plant base
  the 90th percentile of an empty array raises IndexError. Neither case returns a number.
  With a fixed ground height the result depends neither on the ground cloud nor on the
  density estimate.
\<close>

theorem percentile_height_failure_cases:
  "(ground_sample z ground = Inr [] \<longrightarrow>
      get_percentile_height kde z ground container_ht Auto = Inl ValueError)
   \<and> (ground_elevation kde z ground = Inr ele
        \<and> points_above (nf_add ele (Num container_ht)) z = [] \<longrightarrow>
      get_percentile_height kde z ground container_ht Auto = Inl IndexError)
   \<and> (points_above (Num (g + container_ht)) z = [] \<longrightarrow>
      get_percentile_height kde z ground container_ht (Fixed g) = Inl IndexError)
   \<and> get_percentile_height kde z ground container_ht (Fixed g)
     = get_percentile_height kde' z ground' container_ht (Fixed g)"
proof (intro conjI impI)
  show "get_percentile_height kde z ground container_ht (Fixed g)
     = get_percentile_height kde' z ground' container_ht (Fixed g)"
    by (simp add: get_percentile_height_def)
next
  assume "ground_sample z ground = Inr []"
  then show "get_percentile_height kde z ground container_ht Auto = Inl ValueError"
    by (simp add: get_percentile_height_def ground_elevation_empty_sample ebind_def)
next
  assume "ground_elevation kde z ground = Inr ele
        \<and> points_above (nf_add ele (Num container_ht)) z = []"
  then show "get_percentile_height kde z ground container_ht Auto = Inl IndexError"
    using height_no_point_above [where ght = Auto and kde = kde and ele = ele] by simp
next
  assume "points_above (Num (g + container_ht)) z = []"
  then show "get_percentile_height kde z ground container_ht (Fixed g) = Inl IndexError"
    using height_no_point_above [where ght = "Fixed g" and ele = "Num g"] by simp
qed

theorem percentile_height_failure_cases_witness:
  "ground_sample [1, 2, 3, 4, 5] [2, 3] = Inr []
   \<and> get_percentile_height flat_kde [1, 2, 3, 4, 5] [2, 3] 0 Auto = Inl ValueError
   \<and> ground_elevation flat_kde [1, 2, 3, 4, 5] [0, 1, 3] = Inr (Num (1 / 2))
   \<and> points_above (nf_add (Num (1 / 2)) (Num 6)) [1, 2, 3, 4, 5] = []
   \<and> get_percentile_height flat_kde [1, 2, 3, 4, 5] [0, 1, 3] 6 Auto = Inl IndexError
   \<and> points_above (Num (5 + 0)) [1, 2, 3, 4, 5] = []
   \<and> get_percentile_height flat_kde [1, 2, 3, 4, 5] [0, 1, 3] 0 (Fixed 5) = Inl IndexError"
proof -
  have h1: "ground_sample [1, 2, 3, 4, 5] [2, 3] = Inr []"
    by (simp add: ground_sample_def ebind_def np_percentile_def Let_def)
  have h2: "ground_elevation flat_kde [1, 2, 3, 4, 5] [0, 1, 3] = Inr (Num (1 / 2))"
    by (simp add: ground_elevation_def ground_sample_def ebind_def np_percentile_def Let_def
        np_min_def np_max_def flat_kde_def np_median_def)
  have h3: "points_above (nf_add (Num (1 / 2)) (Num 6)) [1, 2, 3, 4, 5] = []"
    by (simp add: points_above_def)
  have h4: "points_above (Num (5 + 0)) [1, 2, 3, 4, 5] = []"
    by (simp add: points_above_def)
  show ?thesis
    using h1 h2 h3 h4
      percentile_height_failure_cases
        [where z = "[1, 2, 3, 4, 5]" and ground = "[2, 3]" and kde = flat_kde
           and container_ht = 0 and ele = "Num (1 / 2)" and g = 5]
      percentile_height_failure_cases
        [where z = "[1, 2, 3, 4, 5]" and ground = "[0, 1, 3]" and kde = flat_kde
           and container_ht = 6 and ele = "Num (1 / 2)" and g = 5]
      percentile_height_failure_cases
        [where z = "[1, 2, 3, 4, 5]" and ground = "[0, 1, 3]" and kde = flat_kde
           and container_ht = 0 and ele = "Num (1 / 2)" and g = 5]
    by simp
qed

text \<open>
  With a fixed ground height the ground cloud is never read: no ground point lies below the 5th
  percentile of the instance, and the height is the number 5.
\<close>

theorem fixed_height_ignores_ground_sample:
  "ground_sample [1, 2, 3, 4, 5] [2, 3] = Inr []
   \<and> map_sum id fst (get_percentile_height flat_kde [1, 2, 3, 4, 5] [2, 3] 0 (Fixed 0))
       = Inr (Num 5)"
  by (simp add: ground_sample_def get_percentile_height_def ebind_def np_percentile_def Let_def
      points_above_def np_mean_def)

section \<open>The classifier and its application\<close>

lemma build_training_array_kinds:
  "build_training_array ext items (data, kinds) = Inr (data', kinds') \<Longrightarrow>
     length data = length kinds \<Longrightarrow>
     length data' = length kinds' \<and> set kinds' \<subseteq> set kinds \<union> snd ` set items"
proof (induction items arbitrary: data kinds)
  case Nil
  then show ?case by simp
next
  case (Cons it items)
  obtain src k where it: "it = (src, k)" by (cases it)
  from Cons.prems(1) obtain img where
    img: "training_colors ext src = Inr img"
    and rest: "build_training_array ext items (data @ img, kinds @ replicate (length img) k)
                 = Inr (data', kinds')"
    by (auto simp: it ebind_def split: sum.splits)
  have "length (data @ img) = length (kinds @ replicate (length img) k)"
    using Cons.prems(2) by simp
  from Cons.IH [OF rest this]
  show ?case by (auto simp: it)
qed

lemma Classifier_init_fields:
  assumes "Classifier_init ext paths kinds core = Inr c"
  shows "path_list c = take (min (length paths) (length kinds)) paths"
    and "kind_list c = take (min (length paths) (length kinds)) kinds"
    and "kind_set c = remdups kinds"
    and "length (train_data c) = length (train_kind c)"
    and "set (train_kind c) \<subseteq> set (kind_list c)"
proof -
  let ?n = "min (length paths) (length kinds)"
  from assms obtain data tk where
    bt: "build_training_array ext (zip (take ?n paths) (take ?n kinds)) ([], []) = Inr (data, tk)"
    by (auto simp: Classifier_init_def Let_def ebind_def split: sum.splits)
  from assms bt have fields:
    "path_list c = take ?n paths \<and> kind_list c = take ?n kinds \<and> kind_set c = remdups kinds
     \<and> train_data c = data \<and> train_kind c = tk"
    by (auto simp: Classifier_init_def Let_def ebind_def split: sum.splits if_splits)
  from build_training_array_kinds [OF bt]
  have k: "length data = length tk \<and> set tk \<subseteq> snd ` set (zip (take ?n paths) (take ?n kinds))"
    by simp
  have "snd ` set (zip (take ?n paths) (take ?n kinds)) \<subseteq> set (take ?n kinds)"
    by (auto dest: set_zip_rightD)
  with k fields show "path_list c = take ?n paths" "kind_list c = take ?n kinds"
    "kind_set c = remdups kinds" "length (train_data c) = length (train_kind c)"
    "set (train_kind c) \<subseteq> set (kind_list c)"
    by auto
qed

lemma Classifier_init_single:
  assumes "Classifier_init ext paths kinds core = Inr c" and "length (remdups kinds) = 1"
  shows "clf c = Some OneClassSVM"
  using assms
  by (auto simp: Classifier_init_def Let_def ebind_def split: sum.splits if_splits)

text \<open>
  C1, where the code departs from it. A classifier built from a single distinct label holds an
  \<^verbatim>\<open>OneClassSVM()\<close> that is never fitted, so prediction raises NotFittedError and
  \<^verbatim>\<open>classifier_apply\<close> produces no class subsets at all: the partition of the cloud does
  not exist on the single-class path.
\<close>

theorem single_class_never_fitted:
  assumes "Classifier_init ext paths kinds core = Inr c" and "length (remdups kinds) = 1"
  shows "clf c = Some OneClassSVM \<and> predict c vars = Inl NotFittedError
         \<and> classifier_apply self c = (Inl NotFittedError, [])"
  using Classifier_init_single [OF assms]
  by (simp add: predict_def classifier_apply_def rlift_def rbind_def)

lemma rmap_total:
  "(\<And>x. x \<in> set xs \<Longrightarrow> fst (f x) = Inr (g x)) \<Longrightarrow> fst (rmap f xs) = Inr (map g xs)"
  by (induction xs) (simp_all add: rpure_def rbind_def)

lemma classify_kind_fst:
  "fst (classify_kind self pred k)
   = Inr (k, select_down_sample (pcd self) (np_where (\<lambda>v. v = k) pred))"
  by (simp add: classify_kind_def save_cloud_def rdo_def rbind_def rpure_def Let_def)

lemma classifier_apply_fst:
  "fst (classifier_apply self c)
   = (case predict c (pcd_rgb self) of
        Inl e \<Rightarrow> Inl e
      | Inr pred \<Rightarrow>
          Inr (map (\<lambda>k. (k, select_down_sample (pcd self) (np_where (\<lambda>v. v = k) pred)))
                 (kind_set c)))"
  by (simp add: classifier_apply_def rlift_def rbind_def rmap_total [OF classify_kind_fst]
      split: sum.splits)

lemma predict_tree:
  "predict c vars = Inr pred \<Longrightarrow>
     \<exists>fitted. clf c = Some (DecisionTreeClassifier fitted) \<and> pred = map fitted vars"
  by (auto simp: predict_def split: option.splits sk_model.splits if_splits)

lemma Classifier_init_tree:
  assumes "Classifier_init ext paths kinds core = Inr c"
    and "clf c = Some (DecisionTreeClassifier fitted)"
  shows "tree_fit ext (train_data c) (train_kind c) = Inr fitted"
  using assms
  by (auto simp: Classifier_init_def Let_def ebind_def split: sum.splits if_splits)

lemma np_where_none: "(\<And>x. x \<in> set xs \<Longrightarrow> \<not> P x) \<Longrightarrow> np_where P xs = []"
  by (auto simp: np_where_def filter_empty_conv)

lemma map_of_tabulate: "k \<in> set ks \<Longrightarrow> map_of (map (\<lambda>k. (k, g k)) ks) k = Some (g k)"
  by (induction ks) auto

lemma Classifier_init_dtc:
  assumes "Classifier_init ext paths kinds core = Inr c"
    and "length (remdups kinds) \<noteq> 1" and "core = ''dtc''"
  shows "\<exists>fitted. clf c = Some (DecisionTreeClassifier fitted)"
  using assms
  by (auto simp: Classifier_init_def Let_def ebind_def split: sum.splits if_splits)

text \<open>
  C10. The stored path and label lists are both cut to the shorter length and the training
  labels come from the cut list, while \<^verbatim>\<open>kind_set\<close> holds the labels of the whole
  \<^verbatim>\<open>kind_list\<close>. Whenever \<^verbatim>\<open>classifier_apply\<close> returns, it has one class subset per
  label of \<^verbatim>\<open>kind_set\<close>; for a label without training sample that subset is empty, given
  that the fitted tree predicts only labels it was trained on. It does return on a non-empty
  cloud when the classifier is the decision tree of two or more distinct labels.
\<close>

theorem kind_set_keeps_untruncated_labels:
  assumes init: "Classifier_init ext paths kinds core = Inr c"
  shows "path_list c = take (min (length paths) (length kinds)) paths
     \<and> kind_list c = take (min (length paths) (length kinds)) kinds
     \<and> set (train_kind c) \<subseteq> set (take (min (length paths) (length kinds)) kinds)
     \<and> set (kind_set c) = set kinds
     \<and> (length (remdups kinds) \<noteq> 1 \<and> core = ''dtc'' \<and> pcd self \<noteq> [] \<longrightarrow>
          (\<exists>subsets. fst (classifier_apply self c) = Inr subsets))
     \<and> (fst (classifier_apply self c) = Inr d \<longrightarrow>
          map fst d = kind_set c
          \<and> (predicts_trained_labels ext \<longrightarrow>
               (\<forall>k \<in> set kinds. k \<notin> set (train_kind c) \<longrightarrow> map_of d k = Some [])))"
proof -
  note f = Classifier_init_fields [OF init]
  have returns: "\<exists>subsets. fst (classifier_apply self c) = Inr subsets"
    if "length (remdups kinds) \<noteq> 1" "core = ''dtc''" "pcd self \<noteq> []"
  proof -
    from Classifier_init_dtc [OF init that(1,2)] obtain fitted where
      "clf c = Some (DecisionTreeClassifier fitted)" ..
    with that(3) have "predict c (pcd_rgb self) = Inr (map fitted (pcd_rgb self))"
      by (simp add: predict_def pcd_rgb_def cloud_rgb_def)
    then show ?thesis by (simp add: classifier_apply_fst)
  qed
  have app: "map fst d = kind_set c
          \<and> (predicts_trained_labels ext \<longrightarrow>
               (\<forall>k \<in> set kinds. k \<notin> set (train_kind c) \<longrightarrow> map_of d k = Some []))"
    if d: "fst (classifier_apply self c) = Inr d"
  proof -
    from d obtain pred where pred: "predict c (pcd_rgb self) = Inr pred"
      and dd: "d = map (\<lambda>k. (k, select_down_sample (pcd self) (np_where (\<lambda>v. v = k) pred)))
                 (kind_set c)"
      by (auto simp: classifier_apply_fst split: sum.splits)
    have keys: "map fst d = kind_set c" by (simp add: dd comp_def)
    have empty: "map_of d k = Some []"
      if sound: "predicts_trained_labels ext" and k: "k \<in> set kinds" "k \<notin> set (train_kind c)" for k
    proof -
      from predict_tree [OF pred] obtain fitted where
        t: "clf c = Some (DecisionTreeClassifier fitted)" and p: "pred = map fitted (pcd_rgb self)"
        by blast
      from Classifier_init_tree [OF init t] sound
      have "\<And>v. fitted v \<in> set (train_kind c)"
        by (auto simp: predicts_trained_labels_def)
      with k(2) have "np_where (\<lambda>v. v = k) pred = []"
        by (intro np_where_none) (auto simp: p)
      moreover have "k \<in> set (kind_set c)" using k(1) f(3) by simp
      ultimately show ?thesis
        by (simp add: dd map_of_tabulate select_down_sample_def)
    qed
    from keys empty show ?thesis by blast
  qed
  from f app returns show ?thesis by auto
qed

lemma nearest_label_mem: "nearest_label v samples best \<in> snd ` (insert best (set samples))"
  by (induction samples arbitrary: best) auto

lemma nearest_fit_sound: "nearest_fit X y = Inr fitted \<Longrightarrow> fitted v \<in> set y"
proof -
  assume a: "nearest_fit X y = Inr fitted"
  then have ne: "X \<noteq> []" and len: "length X = length y"
    and fd: "fitted = (\<lambda>v. nearest_label v (zip X y) (hd (zip X y)))"
    by (auto simp: nearest_fit_def split: if_splits)
  from ne len have "zip X y \<noteq> []" by (cases X; cases y) auto
  then have "hd (zip X y) \<in> set (zip X y)" by simp
  with nearest_label_mem [of v "zip X y" "hd (zip X y)"]
  have "fitted v \<in> snd ` set (zip X y)" by (simp add: fd insert_absorb)
  then show ?thesis by (auto dest: set_zip_rightD)
qed

lemma demo_libs_sound: "predicts_trained_labels demo_libs"
  by (auto simp: predicts_trained_labels_def demo_libs_def dest: nearest_fit_sound)

lemma demo_single_init:
  "\<exists>c. Classifier_init demo_libs [Path ''fore1.png'', Path ''fore2.png''] [0, 0] ''dtc'' = Inr c"
  by (simp add: Classifier_init_def Let_def training_colors_def read_png_def demo_libs_def
      demo_imread_def ebind_def)

theorem single_class_never_fitted_witness:
  "\<exists>c. Classifier_init demo_libs [Path ''fore1.png'', Path ''fore2.png''] [0, 0] ''dtc'' = Inr c
     \<and> length (remdups [0 :: int, 0]) = 1
     \<and> clf c = Some OneClassSVM
     \<and> classifier_apply (new_plot ''S03.ply'' ''S03'' ''.'' False demo_cloud) c
         = (Inl NotFittedError, [])"
proof -
  from demo_single_init obtain c where
    c: "Classifier_init demo_libs [Path ''fore1.png'', Path ''fore2.png''] [0, 0] ''dtc'' = Inr c"
    by blast
  have one: "length (remdups [0 :: int, 0]) = 1" by simp
  from single_class_never_fitted [OF c one] c one show ?thesis by blast
qed

lemma demo_multi_init:
  "\<exists>c fitted.
     Classifier_init demo_libs [Path ''back.png'', Path ''fore.png''] [- 1, 0, 1] ''dtc'' = Inr c
     \<and> train_kind c = [- 1, 0]
     \<and> clf c = Some (DecisionTreeClassifier fitted)
     \<and> map fitted (cloud_rgb demo_cloud) = [- 1, 0, 0]"
  by (simp add: Classifier_init_def Let_def training_colors_def read_png_def demo_imread_def
      ebind_def demo_libs_def nearest_fit_def demo_cloud_def cloud_rgb_def sq_dist_def
      vx_def vy_def vz_def power2_eq_square)

theorem kind_set_keeps_untruncated_labels_witness:
  "\<exists>c d. Classifier_init demo_libs [Path ''back.png'', Path ''fore.png''] [- 1, 0, 1] ''dtc'' = Inr c
     \<and> kind_list c = [- 1, 0]
     \<and> train_kind c = [- 1, 0]
     \<and> set (kind_set c) = {- 1, 0, 1}
     \<and> fst (classifier_apply (new_plot ''S03.ply'' ''S03'' ''.'' False demo_cloud) c) = Inr d
     \<and> map fst d = kind_set c
     \<and> predicts_trained_labels demo_libs
     \<and> map_of d 1 = Some []"
proof -
  let ?self = "new_plot ''S03.ply'' ''S03'' ''.'' False demo_cloud"
  from demo_multi_init obtain c fitted where
    c: "Classifier_init demo_libs [Path ''back.png'', Path ''fore.png''] [- 1, 0, 1] ''dtc'' = Inr c"
    and tk: "train_kind c = [- 1, 0]"
    and t: "clf c = Some (DecisionTreeClassifier fitted)"
    and pr: "map fitted (cloud_rgb demo_cloud) = [- 1, 0, 0]"
    by auto
  have rgb: "pcd_rgb ?self = cloud_rgb demo_cloud"
    by (simp add: pcd_rgb_def new_plot_def)
  have ne: "cloud_rgb demo_cloud \<noteq> []"
    by (simp add: demo_cloud_def cloud_rgb_def)
  have "predict c (pcd_rgb ?self) = Inr [- 1, 0, 0]"
    using ne by (simp add: predict_def t rgb pr)
  then obtain d where d: "fst (classifier_apply ?self c) = Inr d"
    by (simp add: classifier_apply_fst)
  note main = kind_set_keeps_untruncated_labels [OF c, where self = ?self and d = d]
  from main d demo_libs_sound tk have "map_of d 1 = Some []" by simp
  moreover from main have "kind_list c = [- 1, 0]" by simp
  moreover from main have "set (kind_set c) = {- 1, 0, 1}" by auto
  moreover from main d have "map fst d = kind_set c" by simp
  ultimately show ?thesis using c tk d demo_libs_sound by blast
qed

section \<open>Noise filtering\<close>

lemma fst_rbind: "fst (rbind m f) = ebind (fst m) (\<lambda>v. fst (f v))"
  by (simp add: rbind_def ebind_def split: sum.splits)

lemma fst_run_simps:
  "fst (rpure v) = Inr v" "fst (rlift m) = m" "fst (rdo w) = Inr ()"
  "fst (save_cloud self n c) = Inr ()"
  by (simp_all add: rpure_def rlift_def rdo_def save_cloud_def)

lemma fst_rmap: "fst (rmap f xs) = emap (\<lambda>x. fst (f x)) xs"
  by (induction xs) (simp_all add: fst_rbind fst_run_simps)

lemma emap_total: "(\<And>x. x \<in> set xs \<Longrightarrow> f x = Inr (g x)) \<Longrightarrow> emap f xs = Inr (map g xs)"
  by (induction xs) (simp_all add: ebind_def)

lemma ebind_Inr [simp]: "ebind (Inr v) f = f v"
  by (simp add: ebind_def)

lemma ebind_Inl [simp]: "ebind (Inl e) f = Inl e"
  by (simp add: ebind_def)

lemma fst_clean_kind:
  "fst (clean_kind ext self kc)
   = Inr ((fst kc, fst (denoise_kind ext self (fst kc) (snd kc))),
          (fst kc, snd (denoise_kind ext self (fst kc) (snd kc))))"
  by (simp add: clean_kind_def Let_def fst_rbind fst_run_simps)

text \<open>
  C6. \<^verbatim>\<open>remove_noise\<close> computes voxel size and density once, from the whole cloud of the
  plot, and returns for every class of the classified cloud: for the background class
  (label -1) the radius-outlier pass with round(density * 2) neighbours and radius voxel_size
  applied to the outcome of the statistical pass with round(density) neighbours and
  deviation ratio 0.01; for every other class the one radius-outlier pass with
  round(density) neighbours and radius voxel_size.
\<close>

theorem noise_filter_per_class:
  "fst (remove_noise ext self part)
   = (let vox = pcd2voxel ext (pcd self) (Some part);
          vs = fst (snd vox);
          density = snd (snd vox);
          self1 = self\<lparr>pcd_voxel := fst vox, voxel_size := vs, voxel_density := density\<rparr>;
          passes = (\<lambda>k c.
            if k = - 1 then
              remove_radius_outlier ext
                (fst (remove_statistical_outlier ext c (py_round density) (1 / 100)))
                (py_round (density * 2)) vs
            else remove_radius_outlier ext c (py_round density) vs)
      in Inr (self1,
              map (\<lambda>kc. (fst kc, fst (passes (fst kc) (snd kc)))) (pcd_classified self),
              map (\<lambda>kc. (fst kc, snd (passes (fst kc) (snd kc)))) (pcd_classified self)))"
proof -
  let ?vox = "pcd2voxel ext (pcd self) (Some part)"
  let ?self1 = "self\<lparr>pcd_voxel := fst ?vox, voxel_size := fst (snd ?vox),
                       voxel_density := snd (snd ?vox)\<rparr>"
  have "emap (\<lambda>x. fst (clean_kind ext ?self1 x)) (pcd_classified self)
        = Inr (map (\<lambda>kc. ((fst kc, fst (denoise_kind ext ?self1 (fst kc) (snd kc))),
                           (fst kc, snd (denoise_kind ext ?self1 (fst kc) (snd kc)))))
                 (pcd_classified self))"
    by (rule emap_total) (simp add: fst_clean_kind)
  then show ?thesis
    by (simp add: remove_noise_def Let_def fst_rbind fst_rmap fst_run_simps comp_def
        denoise_kind_def split_beta)
qed

section \<open>The plant group of automatic segmentation\<close>

text \<open>
  C7, as the code decides it. With the k-means labels as long as the descriptor array and
  both groups non-empty, group 0 is the plant group only when its mean of the point-count
  feature is strictly larger; otherwise, and so on exact equality of the two means, group 1
  is the plant group.
\<close>

theorem plant_group_by_strict_comparison:
  assumes "length labels = length chars"
    and "group_mean labels 0 chars = Num m0"
    and "group_mean labels 1 chars = Num m1"
  shows "(m1 < m0 \<longrightarrow> plant_group labels chars = Inr (np_where (\<lambda>l. l = 0) labels))
       \<and> (m0 \<le> m1 \<longrightarrow> plant_group labels chars = Inr (np_where (\<lambda>l. l = 1) labels))"
  using assms by (simp add: plant_group_def)

theorem plant_group_by_strict_comparison_witness:
  "length [0 :: nat, 1, 1] = length [(2 :: real, 4 :: real), (1, 1), (1, 1)]
   \<and> group_mean [0, 1, 1] 0 [(2, 4), (1, 1), (1, 1)] = Num 2
   \<and> group_mean [0, 1, 1] 1 [(2, 4), (1, 1), (1, 1)] = Num 1
   \<and> plant_group [0, 1, 1] [(2, 4), (1, 1), (1, 1)] = Inr [0]
   \<and> length [0 :: nat, 1] = length [(1 :: real, 0 :: real), (1, 0)]
   \<and> group_mean [0, 1] 0 [(1, 0), (1, 0)] = Num 1
   \<and> group_mean [0, 1] 1 [(1, 0), (1, 0)] = Num 1
   \<and> plant_group [0, 1] [(1, 0), (1, 0)] = Inr [1]"
proof -
  have a1: "length [0 :: nat, 1, 1] = length [(2 :: real, 4 :: real), (1, 1), (1, 1)]" by simp
  have a2: "group_mean [0, 1, 1] 0 [(2, 4), (1, 1), (1, 1)] = Num 2"
    by (simp add: group_mean_def mask_rows_def np_mean_def)
  have a3: "group_mean [0, 1, 1] 1 [(2, 4), (1, 1), (1, 1)] = Num 1"
    by (simp add: group_mean_def mask_rows_def np_mean_def)
  have b1: "length [0 :: nat, 1] = length [(1 :: real, 0 :: real), (1, 0)]" by simp
  have b2: "group_mean [0, 1] 0 [(1, 0), (1, 0)] = Num 1"
    by (simp add: group_mean_def mask_rows_def np_mean_def)
  have b3: "group_mean [0, 1] 1 [(1, 0), (1, 0)] = Num 1"
    by (simp add: group_mean_def mask_rows_def np_mean_def)
  have w0: "np_where (\<lambda>l. l = 0) [0 :: nat, 1, 1] = [0]"
    by (simp add: np_where_def upt_rec)
  have w1: "np_where (\<lambda>l. l = 1) [0 :: nat, 1] = [1]"
    by (simp add: np_where_def upt_rec)
  from plant_group_by_strict_comparison [OF a1 a2 a3] w0
  have r1: "plant_group [0, 1, 1] [(2, 4), (1, 1), (1, 1)] = Inr [0]" by simp
  from plant_group_by_strict_comparison [OF b1 b2 b3] w1
  have r2: "plant_group [0, 1] [(1, 0), (1, 0)] = Inr [1]" by simp
  from a1 a2 a3 b1 b2 b3 r1 r2 show ?thesis by blast
qed

text \<open>
  Two clusters with the same point-count feature, one in each k-means group: the means are
  equal and the plant group is group 1 (the cluster at position 1), not group 0.
\<close>

theorem equal_means_select_group_one:
  "group_mean [0, 1] 0 [(1, 0), (1, 0)] = Num 1
   \<and> group_mean [0, 1] 1 [(1, 0), (1, 0)] = Num 1
   \<and> plant_group [0, 1] [(1, 0), (1, 0)] = Inr [1]"
  by (simp add: plant_group_def group_mean_def mask_rows_def np_mean_def np_where_def upt_rec)

section \<open>Polygon-based segmentation\<close>

lemma np_max_bound: "np_max a = Inr m \<Longrightarrow> x \<in> set a \<Longrightarrow> x \<le> m"
proof -
  assume a: "np_max a = Inr m" and x: "x \<in> set a"
  then obtain y ys where ys: "a = y # ys" and m: "m = fold max ys y"
    by (auto simp: np_max_def split: list.splits)
  have "m = Max (set a)" using Max.set_eq_fold [of y ys] by (simp add: ys m)
  with x show ?thesis by simp
qed

lemma np_min_bound: "np_min a = Inr m \<Longrightarrow> x \<in> set a \<Longrightarrow> m \<le> x"
proof -
  assume a: "np_min a = Inr m" and x: "x \<in> set a"
  then obtain y ys where ys: "a = y # ys" and m: "m = fold min ys y"
    by (auto simp: np_min_def split: list.splits)
  have "m = Min (set a)" using Min.set_eq_fold [of y ys] by (simp add: ys m)
  with x show ?thesis by simp
qed

lemma np_max_nonempty: "a \<noteq> [] \<Longrightarrow> \<exists>m. np_max a = Inr m"
  by (cases a) (simp_all add: np_max_def)

lemma np_min_nonempty: "a \<noteq> [] \<Longrightarrow> \<exists>m. np_min a = Inr m"
  by (cases a) (simp_all add: np_min_def)

lemma fst_crop_polygon:
  "fst (crop_polygon ext self a_max a_min k cleaned named)
   = Inr (crop_point_cloud ext (shp_boundary a_max a_min (snd named)) cleaned,
          ''class['' @ str_int k @ '']-'' @ fst named)"
  by (simp add: crop_polygon_def Let_def fst_rbind fst_run_simps)

lemma fst_crop_kind:
  "fst (crop_kind ext self a_max a_min shp_seg kc)
   = Inr (fst kc,
          map (\<lambda>named. crop_point_cloud ext (shp_boundary a_max a_min (snd named)) (snd kc))
            shp_seg,
          map (\<lambda>named. ''class['' @ str_int (fst kc) @ '']-'' @ fst named) shp_seg)"
proof -
  have "emap (\<lambda>x. fst (crop_polygon ext self a_max a_min (fst kc) (snd kc) x)) shp_seg
      = Inr (map (\<lambda>named.
            (crop_point_cloud ext (shp_boundary a_max a_min (snd named)) (snd kc),
             ''class['' @ str_int (fst kc) @ '']-'' @ fst named)) shp_seg)"
    by (rule emap_total) (simp add: fst_crop_polygon)
  then show ?thesis
    by (simp add: crop_kind_def fst_rbind fst_rmap fst_run_simps comp_def)
qed

text \<open>
  C5. On a non-empty plot cloud \<^verbatim>\<open>shp_segmentation\<close> returns, for every class of the cleaned
  cloud other than the background and in the order of the polygons, one crop of the class's
  cleaned cloud per named polygon (also when the crop is empty), named by class and polygon.
  Each crop uses a prism along the Z axis over the polygon whose z-extent runs from the lowest
  to the highest z of the plot's cloud; it therefore spans the z-range of every class cloud made
  of points of the plot.
\<close>

theorem polygon_segmentation_instances:
  assumes "pcd self \<noteq> []"
  shows "\<exists>a_max a_min self'.
     np_max (map vz (pcd_xyz self)) = Inr a_max
     \<and> np_min (map vz (pcd_xyz self)) = Inr a_min
     \<and> fst (shp_segmentation ext self shp_dir rename) = Inr (self', pcd_segmented self')
     \<and> segmented self'
     \<and> pcd_segmented self'
         = map (\<lambda>kc. (fst kc,
                  map (\<lambda>named.
                        crop_point_cloud ext (shp_boundary a_max a_min (snd named)) (snd kc))
                    (read_shp ext shp_dir rename)))
             (filter (\<lambda>kc. fst kc \<noteq> - 1) (pcd_cleaned self))
     \<and> pcd_segmented_name self'
         = map (\<lambda>kc. (fst kc,
                  map (\<lambda>named. ''class['' @ str_int (fst kc) @ '']-'' @ fst named)
                    (read_shp ext shp_dir rename)))
             (filter (\<lambda>kc. fst kc \<noteq> - 1) (pcd_cleaned self))
     \<and> (\<forall>polygon. orthogonal_axis (shp_boundary a_max a_min polygon) = ''Z''
            \<and> bounding_polygon (shp_boundary a_max a_min polygon) = polygon
            \<and> axis_max (shp_boundary a_max a_min polygon) = a_max
            \<and> axis_min (shp_boundary a_max a_min polygon) = a_min)
     \<and> (\<forall>kc \<in> set (pcd_cleaned self). set (snd kc) \<subseteq> set (pcd self) \<longrightarrow>
            (\<forall>p \<in> set (snd kc). a_min \<le> vz (fst p) \<and> vz (fst p) \<le> a_max))"
proof -
  let ?zs = "map vz (pcd_xyz self)"
  let ?shp = "read_shp ext shp_dir rename"
  let ?kinds = "filter (\<lambda>kc. fst kc \<noteq> - 1) (pcd_cleaned self)"
  from assms have ne: "?zs \<noteq> []" by (simp add: pcd_xyz_def cloud_xyz_def)
  from np_max_nonempty [OF ne] obtain a_max where amax: "np_max ?zs = Inr a_max" by blast
  from np_min_nonempty [OF ne] obtain a_min where amin: "np_min ?zs = Inr a_min" by blast
  let ?out = "map (\<lambda>kc. (fst kc,
          map (\<lambda>named. crop_point_cloud ext (shp_boundary a_max a_min (snd named)) (snd kc)) ?shp,
          map (\<lambda>named. ''class['' @ str_int (fst kc) @ '']-'' @ fst named) ?shp)) ?kinds"
  let ?self' = "self\<lparr>segmented := True,
      pcd_segmented := map (\<lambda>r. (fst r, fst (snd r))) ?out,
      pcd_segmented_name := map (\<lambda>r. (fst r, snd (snd r))) ?out\<rparr>"
  have loop: "emap (\<lambda>x. fst (crop_kind ext self a_max a_min ?shp x)) ?kinds = Inr ?out"
    by (rule emap_total) (simp add: fst_crop_kind)
  have res: "fst (shp_segmentation ext self shp_dir rename) = Inr (?self', pcd_segmented ?self')"
    by (simp add: shp_segmentation_def Let_def fst_rbind fst_rmap fst_run_simps amax amin loop)
  have inside: "a_min \<le> vz (fst p) \<and> vz (fst p) \<le> a_max" if "p \<in> set (pcd self)" for p
  proof -
    from that have "vz (fst p) \<in> set ?zs"
      by (auto simp: pcd_xyz_def cloud_xyz_def)
    with np_max_bound [OF amax] np_min_bound [OF amin] show ?thesis by blast
  qed
  have "np_max (map vz (pcd_xyz self)) = Inr a_max
     \<and> np_min (map vz (pcd_xyz self)) = Inr a_min
     \<and> fst (shp_segmentation ext self shp_dir rename) = Inr (?self', pcd_segmented ?self')
     \<and> segmented ?self'
     \<and> pcd_segmented ?self'
         = map (\<lambda>kc. (fst kc,
                  map (\<lambda>named.
                        crop_point_cloud ext (shp_boundary a_max a_min (snd named)) (snd kc))
                    ?shp)) ?kinds
     \<and> pcd_segmented_name ?self'
         = map (\<lambda>kc. (fst kc,
                  map (\<lambda>named. ''class['' @ str_int (fst kc) @ '']-'' @ fst named) ?shp)) ?kinds
     \<and> (\<forall>polygon. orthogonal_axis (shp_boundary a_max a_min polygon) = ''Z''
            \<and> bounding_polygon (shp_boundary a_max a_min polygon) = polygon
            \<and> axis_max (shp_boundary a_max a_min polygon) = a_max
            \<and> axis_min (shp_boundary a_max a_min polygon) = a_min)
     \<and> (\<forall>kc \<in> set (pcd_cleaned self). set (snd kc) \<subseteq> set (pcd self) \<longrightarrow>
            (\<forall>p \<in> set (snd kc). a_min \<le> vz (fst p) \<and> vz (fst p) \<le> a_max))"
    using res inside amax amin by (auto simp: comp_def shp_boundary_def)
  then show ?thesis by blast
qed

lemma str_int_digits:
  "str_int 0 = ''0''" "str_int 1 = ''1''" "str_int (- 1) = ''-1''"
  by (simp_all add: str_int_def str_nat.simps digit_char_def)

lemma demo_plot_fields:
  "pcd demo_plot = demo_cloud"
  "pcd_classified demo_plot
   = [(- 1, [((0, 0, 0), (2 / 5, 1 / 5, 0))]),
      (0, [((1, 1, 1), (0, 1, 0)), ((1, 2, 2), (0, 1, 0))])]"
  "pcd_cleaned demo_plot
   = [(- 1, [((0, 0, 0), (2 / 5, 1 / 5, 0))]),
      (0, [((1, 1, 1), (0, 1, 0)), ((1, 2, 2), (0, 1, 0))])]"
  "write_ply demo_plot = False" "out_folder demo_plot = ''.''" "ply_name demo_plot = ''S03''"
  "voxel_size demo_plot = 1 / 10" "voxel_density demo_plot = 5 / 2"
  "segmented demo_plot = False"
  by (simp_all add: demo_plot_def new_plot_def)

theorem polygon_segmentation_instances_witness:
  "pcd demo_plot \<noteq> []
   \<and> (\<exists>self'. fst (shp_segmentation demo_libs demo_plot (OneShp ''plots.shp'') True)
              = Inr (self', pcd_segmented self')
        \<and> pcd_segmented self' = [(0, [[], [((1, 1, 1), (0, 1, 0)), ((1, 2, 2), (0, 1, 0))]])]
        \<and> pcd_segmented_name self' = [(0, [''class[0]-east'', ''class[0]-west''])])
   \<and> list_all (\<lambda>p. 0 \<le> vz (fst p) \<and> vz (fst p) \<le> 2)
         [((1, 1, 1), (0, 1, 0)), ((1, 2, 2), (0, 1, 0))]"
proof -
  have ne: "pcd demo_plot \<noteq> []"
    by (simp add: demo_plot_fields demo_cloud_def)
  from polygon_segmentation_instances
    [OF ne, where ext = demo_libs and shp_dir = "OneShp ''plots.shp''" and rename = True]
  obtain a_max a_min self' where
    amax: "np_max (map vz (pcd_xyz demo_plot)) = Inr a_max"
    and amin: "np_min (map vz (pcd_xyz demo_plot)) = Inr a_min"
    and res: "fst (shp_segmentation demo_libs demo_plot (OneShp ''plots.shp'') True)
                = Inr (self', pcd_segmented self')"
    and segs: "pcd_segmented self'
         = map (\<lambda>kc. (fst kc,
                  map (\<lambda>named.
                        crop_point_cloud demo_libs (shp_boundary a_max a_min (snd named)) (snd kc))
                    (read_shp demo_libs (OneShp ''plots.shp'') True)))
             (filter (\<lambda>kc. fst kc \<noteq> - 1) (pcd_cleaned demo_plot))"
    and names: "pcd_segmented_name self'
         = map (\<lambda>kc. (fst kc,
                  map (\<lambda>named. ''class['' @ str_int (fst kc) @ '']-'' @ fst named)
                    (read_shp demo_libs (OneShp ''plots.shp'') True)))
             (filter (\<lambda>kc. fst kc \<noteq> - 1) (pcd_cleaned demo_plot))"
    and span: "\<forall>kc \<in> set (pcd_cleaned demo_plot). set (snd kc) \<subseteq> set (pcd demo_plot) \<longrightarrow>
            (\<forall>p \<in> set (snd kc). a_min \<le> vz (fst p) \<and> vz (fst p) \<le> a_max)"
    by blast
  have "np_max (map vz (pcd_xyz demo_plot)) = Inr 2"
    by (simp add: pcd_xyz_def demo_plot_fields demo_cloud_def cloud_xyz_def np_max_def vz_def)
  with amax have a2: "a_max = 2" by simp
  have "np_min (map vz (pcd_xyz demo_plot)) = Inr 0"
    by (simp add: pcd_xyz_def demo_plot_fields demo_cloud_def cloud_xyz_def np_min_def vz_def)
  with amin have a0: "a_min = 0" by simp
  have s: "pcd_segmented self' = [(0, [[], [((1, 1, 1), (0, 1, 0)), ((1, 2, 2), (0, 1, 0))]])]"
    by (simp add: segs a2 a0 demo_plot_fields demo_libs_def demo_shp_def box_crop_def in_box_def
        shp_boundary_def vx_def vy_def vz_def)
  have n: "pcd_segmented_name self' = [(0, [''class[0]-east'', ''class[0]-west''])]"
    by (simp add: names demo_plot_fields demo_libs_def demo_shp_def str_int_digits)
  from span a2 a0
  have "list_all (\<lambda>p. 0 \<le> vz (fst p) \<and> vz (fst p) \<le> 2)
         [((1, 1, 1), (0, 1, 0)), ((1, 2, 2), (0, 1, 0))]"
    by (simp add: demo_plot_fields demo_cloud_def)
  with ne res s n show ?thesis by blast
qed

section \<open>Automatic segmentation\<close>

lemma ebind_eq_Inr: "(ebind m f = Inr y) = (\<exists>v. m = Inr v \<and> f v = Inr y)"
  by (cases m) simp_all

lemma emap_Inr_mem:
  "emap f xs = Inr ys \<Longrightarrow> y \<in> set ys \<Longrightarrow> \<exists>x \<in> set xs. f x = Inr y"
proof (induction xs arbitrary: ys)
  case Nil
  then show ?case by simp
next
  case (Cons x xs)
  from Cons.prems(1) obtain z zs where
    z: "f x = Inr z" and zs: "emap f xs = Inr zs" and ys: "ys = z # zs"
    by (auto simp: ebind_eq_Inr)
  from Cons.prems(2) ys consider "y = z" | "y \<in> set zs" by auto
  then show ?case
  proof cases
    case 1
    with z show ?thesis by simp
  next
    case 2
    from Cons.IH [OF zs 2] show ?thesis by auto
  qed
qed

lemma center_row_Inr:
  "center_row segs p = Inr r \<Longrightarrow>
     row_seg_id r < length segs
     \<and> row_x r = vx (get_center (segs ! row_seg_id r))
     \<and> row_y r = vy (get_center (segs ! row_seg_id r))"
  by (auto simp: center_row_def py_index_def ebind_eq_Inr split: if_splits)

lemma sort_rows_set: "set (sort_rows key asc df) = set df"
  by (simp add: sort_rows_def)

lemma sort_rows_sorted:
  "sorted (if asc then map key (sort_rows key asc df) else rev (map key (sort_rows key asc df)))"
  by (simp add: sort_rows_def rev_map)

lemma emit_instances_Inr:
  "fst (emit_instances self k segs rows i) = Inr out \<Longrightarrow>
     map fst out = map (\<lambda>r. segs ! row_seg_id r) rows
     \<and> map snd out
         = map (\<lambda>j. ''class['' @ str_int k @ '']-plant'' @ str_nat j) [i..<i + length rows]"
proof (induction rows arbitrary: i out)
  case Nil
  then show ?case by (simp add: fst_run_simps)
next
  case (Cons r rows)
  from Cons.prems obtain rest where
    rest: "fst (emit_instances self k segs rows (Suc i)) = Inr rest"
    and out: "out = (segs ! row_seg_id r, ''class['' @ str_int k @ '']-plant'' @ str_nat i) # rest"
    by (auto simp: fst_rbind fst_run_simps ebind_eq_Inr Let_def py_index_def split: if_splits)
  have "[i..<i + length (r # rows)] = i # [Suc i..<i + length (r # rows)]"
    by (rule upt_conv_Cons) simp
  moreover have "i + length (r # rows) = Suc i + length rows" by simp
  ultimately have range: "[i..<i + length (r # rows)] = i # [Suc i..<Suc i + length rows]"
    by (simp only:)
  from Cons.IH [OF rest] show ?case
    unfolding range by (simp add: out)
qed

lemma segment_kind_Inr:
  assumes "fst (segment_kind ext self name_by ascending eps_times mp img_folder k)
           = Inr (k', insts, names)"
  shows "k' = k
     \<and> names = map (\<lambda>j. ''class['' @ str_int k @ '']-plant'' @ str_nat j) [0..<length insts]
     \<and> (name_by = ''x'' \<longrightarrow>
          sorted (if ascending then map (\<lambda>c. vx (get_center c)) insts
                  else rev (map (\<lambda>c. vx (get_center c)) insts)))
     \<and> (name_by = ''y'' \<longrightarrow>
          sorted (if ascending then map (\<lambda>c. vy (get_center c)) insts
                  else rev (map (\<lambda>c. vy (get_center c)) insts)))"
proof -
  from assms obtain segs plant_id frame temp_df out where
    frame: "emap (center_row segs) plant_id = Inr frame"
    and sorted_df: "sort_values frame name_by ascending = Inr temp_df"
    and emit: "fst (emit_instances self k segs temp_df 0) = Inr out"
    and res: "k' = k" "insts = map fst out" "names = map snd out"
    by (auto simp: segment_kind_def fst_rbind fst_run_simps ebind_eq_Inr Let_def)
  note e = emit_instances_Inr [OF emit]
  have rows: "row_x r = vx (get_center (segs ! row_seg_id r))
            \<and> row_y r = vy (get_center (segs ! row_seg_id r))" if "r \<in> set frame" for r
    using emap_Inr_mem [OF frame that] center_row_Inr by blast
  have len: "length insts = length temp_df"
    using e res(2) by (metis length_map)
  have nm: "names = map (\<lambda>j. ''class['' @ str_int k @ '']-plant'' @ str_nat j) [0..<length insts]"
    using e res(3) len by simp
  have x: "sorted (if ascending then map (\<lambda>c. vx (get_center c)) insts
                       else rev (map (\<lambda>c. vx (get_center c)) insts))" if "name_by = ''x''"
  proof -
    from sorted_df that have t: "temp_df = sort_rows row_x ascending frame"
      by (simp add: sort_values_def)
    then have "set temp_df = set frame" by (simp add: sort_rows_set)
    with rows have "map (\<lambda>c. vx (get_center c)) insts = map row_x temp_df"
      using e res(2) by (simp add: comp_def)
    with sort_rows_sorted [of ascending row_x frame] t show ?thesis
      by (cases ascending) simp_all
  qed
  have y: "sorted (if ascending then map (\<lambda>c. vy (get_center c)) insts
                       else rev (map (\<lambda>c. vy (get_center c)) insts))" if "name_by = ''y''"
  proof -
    from sorted_df that have t: "temp_df = sort_rows row_y ascending frame"
      by (simp add: sort_values_def)
    then have "set temp_df = set frame" by (simp add: sort_rows_set)
    with rows have "map (\<lambda>c. vy (get_center c)) insts = map row_y temp_df"
      using e res(2) by (simp add: comp_def)
    with sort_rows_sorted [of ascending row_y frame] t show ?thesis
      by (cases ascending) simp_all
  qed
  from res(1) nm x y show ?thesis by blast
qed

text \<open>
  C8. Whenever automatic segmentation returns, the instances of every class stand in the
  order of the sort: along the chosen coordinate (x or y) of the centroids the values are
  non-decreasing over consecutive instance positions when ascending and non-increasing when
  descending, and the instance at position i carries the sequential name
  \<^verbatim>\<open>class[k]-plant\<close>i.
\<close>

theorem instances_in_centroid_order:
  assumes "fst (auto_segmentation ext self name_by ascending eps_times min_points img_folder)
           = Inr (self', seg_out)"
    and "(k, insts) \<in> set seg_out"
  shows "(name_by = ''x'' \<longrightarrow>
          sorted (if ascending then map (\<lambda>c. vx (get_center c)) insts
                  else rev (map (\<lambda>c. vx (get_center c)) insts)))
     \<and> (name_by = ''y'' \<longrightarrow>
          sorted (if ascending then map (\<lambda>c. vy (get_center c)) insts
                  else rev (map (\<lambda>c. vy (get_center c)) insts)))
     \<and> (k, map (\<lambda>j. ''class['' @ str_int k @ '']-plant'' @ str_nat j) [0..<length insts])
         \<in> set (pcd_segmented_name self')"
proof -
  let ?mp = "case min_points of None \<Rightarrow> py_round (voxel_density self) | Some m \<Rightarrow> m"
  let ?kinds = "filter (\<lambda>k. k \<noteq> - 1) (map fst (pcd_classified self))"
  from assms(1) obtain outs where
    outs: "emap (\<lambda>k. fst (segment_kind ext self name_by ascending eps_times ?mp img_folder k))
             ?kinds = Inr outs"
    and so: "seg_out = map (\<lambda>r. (fst r, fst (snd r))) outs"
    and nm: "pcd_segmented_name self' = map (\<lambda>r. (fst r, snd (snd r))) outs"
    by (auto simp: auto_segmentation_def Let_def fst_rbind fst_rmap fst_run_simps ebind_eq_Inr)
  from assms(2) so obtain names where r: "(k, insts, names) \<in> set outs"
    by auto
  from emap_Inr_mem [OF outs r] obtain k0 where
    "fst (segment_kind ext self name_by ascending eps_times ?mp img_folder k0)
     = Inr (k, insts, names)"
    by blast
  note sk = segment_kind_Inr [OF this]
  from r nm have "(k, names) \<in> set (pcd_segmented_name self')"
    by force
  with sk show ?thesis by simp
qed

lemma orchard_fields:
  "pcd orchard_plot = orchard_ground @ orchard_plants"
  "pcd_classified orchard_plot = [(- 1, orchard_ground), (0, orchard_plants)]"
  "pcd_cleaned orchard_plot = [(- 1, orchard_ground), (0, orchard_plants)]"
  "write_ply orchard_plot = False" "out_folder orchard_plot = ''.''"
  "ply_name orchard_plot = ''S03''"
  "voxel_size orchard_plot = 1 / 10" "voxel_density orchard_plot = 5 / 2"
  "segmented orchard_plot = False"
  by (simp_all add: orchard_plot_def new_plot_def)

lemma py_round_half: "py_round (5 / 2) = 2"
  by (simp add: py_round_def Let_def)

lemma orchard_clusters:
  "cluster_clouds orchard_plants (interval_dbscan orchard_plants 1 2)
   = [[((5, 5, 1), (0, 1, 0))],
      [((2, 1, 1), (0, 1, 0)), ((2, 2, 2), (0, 1, 0)),
       ((5 / 2, 1, 3), (0, 1, 0)), ((5 / 2, 2, 4), (0, 1, 0))],
      [((0, 1, 1), (0, 1, 0)), ((0, 2, 2), (0, 1, 0)),
       ((1 / 2, 1, 3), (0, 1, 0)), ((1 / 2, 2, 4), (0, 1, 0))]]"
  by (simp add: cluster_clouds_def interval_dbscan_def np_unique_def np_where_def
      select_down_sample_def orchard_plants_def vx_def upt_rec)

lemma orchard_chars:
  "cluster_chars demo_libs
     [[((5, 5, 1), (0, 1, 0))],
      [((2, 1, 1), (0, 1, 0)), ((2, 2, 2), (0, 1, 0)),
       ((5 / 2, 1, 3), (0, 1, 0)), ((5 / 2, 2, 4), (0, 1, 0))],
      [((0, 1, 1), (0, 1, 0)), ((0, 2, 2), (0, 1, 0)),
       ((1 / 2, 1, 3), (0, 1, 0)), ((1 / 2, 2, 4), (0, 1, 0))]]
   = [(1, 1), (2, 4), (2, 4)]"
  by (simp add: cluster_chars_def demo_libs_def)

lemma orchard_group: "plant_group [Suc 0, 0, 0] [(1, 1), (2, 4), (2, 4)] = Inr [Suc 0, 2]"
  by (simp add: plant_group_def group_mean_def mask_rows_def np_mean_def np_where_def upt_rec)

lemma orchard_frame:
  "emap (center_row
     [[((5, 5, 1), (0, 1, 0))],
      [((2, 1, 1), (0, 1, 0)), ((2, 2, 2), (0, 1, 0)),
       ((5 / 2, 1, 3), (0, 1, 0)), ((5 / 2, 2, 4), (0, 1, 0))],
      [((0, 1, 1), (0, 1, 0)), ((0, 2, 2), (0, 1, 0)),
       ((1 / 2, 1, 3), (0, 1, 0)), ((1 / 2, 2, 4), (0, 1, 0))]]) [Suc 0, 2]
   = Inr [\<lparr>row_seg_id = Suc 0, row_x = 9 / 4, row_y = 3 / 2\<rparr>,
          \<lparr>row_seg_id = 2, row_x = 1 / 4, row_y = 3 / 2\<rparr>]"
  by (simp add: center_row_def py_index_def get_center_def cloud_xyz_def vx_def vy_def vz_def)

lemma orchard_sort:
  "sort_values [\<lparr>row_seg_id = Suc 0, row_x = 9 / 4, row_y = 3 / 2\<rparr>,
                \<lparr>row_seg_id = 2, row_x = 1 / 4, row_y = 3 / 2\<rparr>] ''x'' True
   = Inr [\<lparr>row_seg_id = 2, row_x = 1 / 4, row_y = 3 / 2\<rparr>,
          \<lparr>row_seg_id = Suc 0, row_x = 9 / 4, row_y = 3 / 2\<rparr>]"
  by (simp add: sort_values_def sort_rows_def)

lemma str_nat_digits: "str_nat 0 = ''0''" "str_nat (Suc 0) = ''1''"
  by (simp_all add: str_nat.simps digit_char_def)

lemma orchard_emit:
  "emit_instances orchard_plot 0
     [[((5, 5, 1), (0, 1, 0))],
      [((2, 1, 1), (0, 1, 0)), ((2, 2, 2), (0, 1, 0)),
       ((5 / 2, 1, 3), (0, 1, 0)), ((5 / 2, 2, 4), (0, 1, 0))],
      [((0, 1, 1), (0, 1, 0)), ((0, 2, 2), (0, 1, 0)),
       ((1 / 2, 1, 3), (0, 1, 0)), ((1 / 2, 2, 4), (0, 1, 0))]]
     [\<lparr>row_seg_id = 2, row_x = 1 / 4, row_y = 3 / 2\<rparr>,
      \<lparr>row_seg_id = Suc 0, row_x = 9 / 4, row_y = 3 / 2\<rparr>] 0
   = (Inr [([((0, 1, 1), (0, 1, 0)), ((0, 2, 2), (0, 1, 0)),
             ((1 / 2, 1, 3), (0, 1, 0)), ((1 / 2, 2, 4), (0, 1, 0))], ''class[0]-plant0''),
           ([((2, 1, 1), (0, 1, 0)), ((2, 2, 2), (0, 1, 0)),
             ((5 / 2, 1, 3), (0, 1, 0)), ((5 / 2, 2, 4), (0, 1, 0))], ''class[0]-plant1'')],
      [])"
  by (simp add: rbind_def rlift_def rpure_def rdo_def save_cloud_def py_index_def Let_def
      orchard_fields str_int_digits str_nat_digits)

lemma orchard_extent: "plot_extent (pcd_xyz orchard_plot) = Inr (5, 5)"
  by (simp add: plot_extent_def pcd_xyz_def orchard_fields orchard_ground_def orchard_plants_def
      cloud_xyz_def np_max_def np_min_def vx_def vy_def)

lemma orchard_segment:
  "segment_kind demo_libs orchard_plot ''x'' True 10 2 ''.'' 0
   = (Inr (0,
           [[((0, 1, 1), (0, 1, 0)), ((0, 2, 2), (0, 1, 0)),
             ((1 / 2, 1, 3), (0, 1, 0)), ((1 / 2, 2, 4), (0, 1, 0))],
            [((2, 1, 1), (0, 1, 0)), ((2, 2, 2), (0, 1, 0)),
             ((5 / 2, 1, 3), (0, 1, 0)), ((5 / 2, 2, 4), (0, 1, 0))]],
           [''class[0]-plant0'', ''class[0]-plant1'']),
      [DrawPlotSeg ''./S03-class[0].png'' (5, 5)])"
proof -
  have dbscan: "cluster_dbscan demo_libs = interval_dbscan"
    and km: "kmeans2 demo_libs [(1, 1), (2, 4), (2, 4)] = Inr [Suc 0, 0, 0]"
    by (simp_all add: demo_libs_def size_kmeans_def)
  show ?thesis
    by (simp add: segment_kind_def Let_def dict_get_def dbscan orchard_fields orchard_clusters
        orchard_chars km orchard_group orchard_frame orchard_sort orchard_emit orchard_extent
        path_join_def str_int_digits rbind_def rlift_def rpure_def rdo_def
        del: emap.simps emit_instances.simps)
qed

lemma orchard_auto:
  "auto_segmentation demo_libs orchard_plot ''x'' True 10 None ''.''
   = (Inr (orchard_plot
            \<lparr>segmented := True,
             pcd_segmented :=
               [(0, [[((0, 1, 1), (0, 1, 0)), ((0, 2, 2), (0, 1, 0)),
                      ((1 / 2, 1, 3), (0, 1, 0)), ((1 / 2, 2, 4), (0, 1, 0))],
                     [((2, 1, 1), (0, 1, 0)), ((2, 2, 2), (0, 1, 0)),
                      ((5 / 2, 1, 3), (0, 1, 0)), ((5 / 2, 2, 4), (0, 1, 0))]])],
             pcd_segmented_name := [(0, [''class[0]-plant0'', ''class[0]-plant1''])]\<rparr>,
           [(0, [[((0, 1, 1), (0, 1, 0)), ((0, 2, 2), (0, 1, 0)),
                  ((1 / 2, 1, 3), (0, 1, 0)), ((1 / 2, 2, 4), (0, 1, 0))],
                 [((2, 1, 1), (0, 1, 0)), ((2, 2, 2), (0, 1, 0)),
                  ((5 / 2, 1, 3), (0, 1, 0)), ((5 / 2, 2, 4), (0, 1, 0))]])]),
      [DrawPlotSeg ''./S03-class[0].png'' (5, 5)])"
  by (simp add: auto_segmentation_def Let_def orchard_fields py_round_half orchard_segment
      rbind_def rpure_def)

lemma orchard_sort_desc:
  "sort_values [\<lparr>row_seg_id = Suc 0, row_x = 9 / 4, row_y = 3 / 2\<rparr>,
                \<lparr>row_seg_id = 2, row_x = 1 / 4, row_y = 3 / 2\<rparr>] ''x'' False
   = Inr [\<lparr>row_seg_id = Suc 0, row_x = 9 / 4, row_y = 3 / 2\<rparr>,
          \<lparr>row_seg_id = 2, row_x = 1 / 4, row_y = 3 / 2\<rparr>]"
  by (simp add: sort_values_def sort_rows_def)

lemma orchard_emit_desc:
  "fst (emit_instances orchard_plot 0
     [[((5, 5, 1), (0, 1, 0))],
      [((2, 1, 1), (0, 1, 0)), ((2, 2, 2), (0, 1, 0)),
       ((5 / 2, 1, 3), (0, 1, 0)), ((5 / 2, 2, 4), (0, 1, 0))],
      [((0, 1, 1), (0, 1, 0)), ((0, 2, 2), (0, 1, 0)),
       ((1 / 2, 1, 3), (0, 1, 0)), ((1 / 2, 2, 4), (0, 1, 0))]]
     [\<lparr>row_seg_id = Suc 0, row_x = 9 / 4, row_y = 3 / 2\<rparr>,
      \<lparr>row_seg_id = 2, row_x = 1 / 4, row_y = 3 / 2\<rparr>] 0)
   = Inr [(east_plant, ''class[0]-plant0''), (west_plant, ''class[0]-plant1'')]"
  by (simp add: fst_rbind fst_run_simps py_index_def Let_def str_int_digits str_nat_digits
      east_plant_def west_plant_def)

lemma orchard_auto_desc:
  "map_sum id snd (fst (auto_segmentation demo_libs orchard_plot ''x'' False 10 None ''.''))
   = Inr [(0, [east_plant, west_plant])]"
proof -
  have dbscan: "cluster_dbscan demo_libs = interval_dbscan"
    and km: "kmeans2 demo_libs [(1, 1), (2, 4), (2, 4)] = Inr [Suc 0, 0, 0]"
    by (simp_all add: demo_libs_def size_kmeans_def)
  have seg: "fst (segment_kind demo_libs orchard_plot ''x'' False 10 2 ''.'' 0)
             = Inr (0, [east_plant, west_plant], [''class[0]-plant0'', ''class[0]-plant1''])"
    by (simp add: segment_kind_def Let_def dict_get_def dbscan orchard_fields orchard_clusters
        orchard_chars km orchard_group orchard_frame orchard_sort_desc orchard_emit_desc
        orchard_extent fst_rbind fst_run_simps
        del: emap.simps emit_instances.simps)
  show ?thesis
    by (simp add: auto_segmentation_def Let_def orchard_fields py_round_half seg
        fst_rbind fst_rmap fst_run_simps)
qed

theorem instances_in_centroid_order_witness:
  "(\<exists>self'. fst (auto_segmentation demo_libs orchard_plot ''x'' True 10 None ''.'')
       = Inr (self', [(0, [west_plant, east_plant])])
      \<and> (0, [''class[0]-plant0'', ''class[0]-plant1'']) \<in> set (pcd_segmented_name self'))
   \<and> sorted (map (\<lambda>c. vx (get_center c)) [west_plant, east_plant])
   \<and> map (\<lambda>c. vx (get_center c)) [west_plant, east_plant] = [1 / 4, 9 / 4]
   \<and> (\<exists>self'. fst (auto_segmentation demo_libs orchard_plot ''x'' False 10 None ''.'')
       = Inr (self', [(0, [east_plant, west_plant])]))
   \<and> sorted (rev (map (\<lambda>c. vx (get_center c)) [east_plant, west_plant]))"
proof -
  obtain self' where
    run: "fst (auto_segmentation demo_libs orchard_plot ''x'' True 10 None ''.'')
          = Inr (self', [(0, [west_plant, east_plant])])"
    by (simp add: orchard_auto west_plant_def east_plant_def)
  have mem: "(0, [west_plant, east_plant]) \<in> set [(0 :: int, [west_plant, east_plant])]"
    by simp
  note ordered = instances_in_centroid_order [OF run mem]
  from ordered have s: "sorted (map (\<lambda>c. vx (get_center c)) [west_plant, east_plant])"
    by simp
  from ordered have n: "(0, [''class[0]-plant0'', ''class[0]-plant1''])
                        \<in> set (pcd_segmented_name self')"
    by (simp add: str_int_digits str_nat_digits upt_rec)
  have v: "map (\<lambda>c. vx (get_center c)) [west_plant, east_plant] = [1 / 4, 9 / 4]"
    by (simp add: get_center_def cloud_xyz_def vx_def west_plant_def east_plant_def)
  from orchard_auto_desc obtain self'' where
    run_desc: "fst (auto_segmentation demo_libs orchard_plot ''x'' False 10 None ''.'')
          = Inr (self'', [(0, [east_plant, west_plant])])"
    by (cases "fst (auto_segmentation demo_libs orchard_plot ''x'' False 10 None ''.'')") auto
  have mem_desc: "(0, [east_plant, west_plant]) \<in> set [(0 :: int, [east_plant, west_plant])]"
    by simp
  from instances_in_centroid_order [OF run_desc mem_desc]
  have d: "sorted (rev (map (\<lambda>c. vx (get_center c)) [east_plant, west_plant]))"
    by simp
  from run n s v run_desc d show ?thesis by blast
qed

section \<open>The reading call of the constructor\<close>

text \<open>
  \<^verbatim>\<open>read_ply\<close> and \<^verbatim>\<open>read_plys\<close> take the path or the list of paths and nothing else, and
  the constructor passes \<^verbatim>\<open>unit\<close> as well. For a file, and for a directory that holds a ply
  file, the call raises \<^verbatim>\<open>TypeError\<close>; a directory without one raises \<^verbatim>\<open>EOFError\<close>, and a
  path that is neither raises \<^verbatim>\<open>TypeError\<close>. With these sources the constructor returns no
  plot and leaves nothing behind. The theorems on plots below hold for every state of a plot,
  and lines 209 to 227, which classify and clean the loaded cloud, are \<open>Plot_init_loaded\<close>.
\<close>

lemma py_call_unit:
  "py_call read_ply_params [''unit''] x = Inl TypeError"
  "py_call read_plys_params [''unit''] y = Inl TypeError"
  by (simp_all add: py_call_def read_ply_params_def read_plys_params_def)

lemma Plot_load_file: "isfile ext path \<Longrightarrow> Plot_load ext path = Inl TypeError"
  by (simp add: Plot_load_def py_call_unit ebind_def)

lemma Plot_load_raises:
  "Plot_load ext path = Inl TypeError \<or> Plot_load ext path = Inl EOFError"
  by (simp add: Plot_load_def py_call_unit ebind_def Let_def)

lemma Plot_init_raises:
  "Plot_init ext path c output_path wp = (Inl TypeError, [])
   \<or> Plot_init ext path c output_path wp = (Inl EOFError, [])"
  using Plot_load_raises [of ext path]
  by (auto simp: Plot_init_def rbind_def rlift_def)

lemma demo_plot_not_loaded:
  "Plot_init demo_libs ''S03.ply'' demo_classifier ''.'' wp = (Inl TypeError, [])"
proof -
  have "isfile demo_libs ''S03.ply''" by (simp add: demo_libs_def)
  then have "Plot_load demo_libs ''S03.ply'' = Inl TypeError" by (rule Plot_load_file)
  then show ?thesis by (simp add: Plot_init_def rbind_def rlift_def)
qed

section \<open>Side files and the write flag\<close>

lemma snd_rbind:
  "snd (rbind m f) = (case fst m of Inl e \<Rightarrow> snd m | Inr v \<Rightarrow> snd m @ snd (f v))"
  by (simp add: rbind_def split: sum.splits)

lemma snd_run_simps:
  "snd (rpure v) = []" "snd (rlift m) = []" "snd (rdo w) = w"
  "snd (save_cloud self n c)
   = (if write_ply self then [WritePointCloud (path_join (out_folder self) n) c] else [])"
  by (simp_all add: rpure_def rlift_def rdo_def save_cloud_def)

lemma snd_rmap_nil:
  "(\<And>x. x \<in> set xs \<Longrightarrow> snd (f x) = []) \<Longrightarrow> snd (rmap f xs) = []"
  by (induction xs) (auto simp: snd_rbind snd_run_simps split: sum.splits)

lemma set_flag_fields [simp]:
  "write_ply (set_flag wp out self) = wp" "out_folder (set_flag wp out self) = out"
  "pcd (set_flag wp out self) = pcd self" "ply_name (set_flag wp out self) = ply_name self"
  "pcd_classified (set_flag wp out self) = pcd_classified self"
  "pcd_cleaned (set_flag wp out self) = pcd_cleaned self"
  "voxel_size (set_flag wp out self) = voxel_size self"
  "voxel_density (set_flag wp out self) = voxel_density self"
  "segmented (set_flag wp out self) = segmented self"
  "pcd_segmented (set_flag wp out self) = pcd_segmented self"
  "pcd_segmented_name (set_flag wp out self) = pcd_segmented_name self"
  "pcd_xyz (set_flag wp out self) = pcd_xyz self"
  "pcd_rgb (set_flag wp out self) = pcd_rgb self"
  by (simp_all add: set_flag_def pcd_xyz_def pcd_rgb_def)

subsection \<open>No side file without the flag\<close>

lemma classifier_apply_silent: "\<not> write_ply self \<Longrightarrow> snd (classifier_apply self c) = []"
  by (auto simp: classifier_apply_def snd_rbind snd_run_simps classify_kind_def Let_def
      intro!: snd_rmap_nil split: sum.splits)

lemma remove_noise_silent: "\<not> write_ply self \<Longrightarrow> snd (remove_noise ext self part) = []"
  by (auto simp: remove_noise_def snd_rbind snd_run_simps clean_kind_def Let_def
      intro!: snd_rmap_nil split: sum.splits)

lemma shp_segmentation_silent:
  "\<not> write_ply self \<Longrightarrow> snd (shp_segmentation ext self shp_dir rename) = []"
  by (auto simp: shp_segmentation_def snd_rbind snd_run_simps crop_kind_def crop_polygon_def
      Let_def intro!: snd_rmap_nil split: sum.splits)

lemma get_traits_silent:
  "\<not> write_ply self \<Longrightarrow> snd (get_traits ext self container_ht ght savefig) = []"
  by (auto simp: get_traits_def snd_rbind snd_run_simps kind_traits_def instance_traits_def
      draw_instance_def intro!: snd_rmap_nil split: sum.splits)

lemma emit_instances_silent:
  "\<not> write_ply self \<Longrightarrow> snd (emit_instances self k segs rows i) = []"
  by (induction rows arbitrary: i)
     (auto simp: snd_rbind snd_run_simps Let_def split: sum.splits)

lemma segment_kind_effects:
  assumes "\<not> write_ply self"
  shows "map is_seg_image (snd (segment_kind ext self name_by ascending eps_times mp img_folder k))
         = (case fst (segment_kind ext self name_by ascending eps_times mp img_folder k) of
              Inl e \<Rightarrow> [] | Inr r \<Rightarrow> [True])"
  using assms
  by (auto simp: segment_kind_def snd_rbind fst_rbind snd_run_simps fst_run_simps Let_def
      emit_instances_silent split: sum.splits)

lemma emap_Inr_length: "emap f xs = Inr ys \<Longrightarrow> length ys = length xs"
  by (induction xs arbitrary: ys) (auto simp: ebind_eq_Inr)


lemma rmap_effect_count:
  assumes "\<And>x. x \<in> set xs \<Longrightarrow>
             map P (snd (f x)) = (case fst (f x) of Inl e \<Rightarrow> [] | Inr r \<Rightarrow> [True])"
  shows "list_all P (snd (rmap f xs))
       \<and> (\<forall>ys. fst (rmap f xs) = Inr ys \<longrightarrow> length (snd (rmap f xs)) = length xs)"
  using assms
proof (induction xs)
  case Nil
  then show ?case by (simp add: snd_run_simps)
next
  case (Cons x xs)
  have x: "map P (snd (f x)) = (case fst (f x) of Inl e \<Rightarrow> [] | Inr r \<Rightarrow> [True])"
    using Cons.prems by simp
  have ih: "list_all P (snd (rmap f xs))
       \<and> (\<forall>ys. fst (rmap f xs) = Inr ys \<longrightarrow> length (snd (rmap f xs)) = length xs)"
    using Cons.IH Cons.prems by simp
  have px: "list_all P (snd (f x))"
    using x by (cases "fst (f x)") (auto simp: list_all_iff dest: map_eq_imp_length_eq)
  have lx: "length (snd (f x)) = 1" if "fst (f x) = Inr r" for r
    using x that by (metis length_map list.size(3,4) One_nat_def sum.simps(6) add.left_neutral)
  show ?case
    using px ih lx
    by (auto simp: snd_rbind fst_rbind snd_run_simps fst_run_simps ebind_eq_Inr
        split: sum.splits)
qed

lemma auto_segmentation_effects:
  assumes "\<not> write_ply self"
  shows "list_all is_seg_image
           (snd (auto_segmentation ext self name_by ascending eps_times min_points img_folder))
       \<and> (\<forall>r. fst (auto_segmentation ext self name_by ascending eps_times min_points img_folder)
                = Inr r \<longrightarrow>
              length (snd (auto_segmentation ext self name_by ascending eps_times min_points
                             img_folder))
              = length (snd r))"
proof -
  let ?mp = "case min_points of None \<Rightarrow> py_round (voxel_density self) | Some m \<Rightarrow> m"
  let ?kinds = "filter (\<lambda>k. k \<noteq> - 1) (map fst (pcd_classified self))"
  let ?loop = "rmap (segment_kind ext self name_by ascending eps_times ?mp img_folder) ?kinds"
  note c = rmap_effect_count
    [of ?kinds is_seg_image "segment_kind ext self name_by ascending eps_times ?mp img_folder",
     OF segment_kind_effects [OF assms]]
  have len: "length ys = length ?kinds" if "fst ?loop = Inr ys" for ys
    using that
    by (metis fst_rmap emap_Inr_length)
  show ?thesis
    using c len
    by (auto simp: auto_segmentation_def Let_def snd_rbind fst_rbind snd_run_simps fst_run_simps
        ebind_eq_Inr split: sum.splits)
qed

subsection \<open>The results do not depend on the flag\<close>

lemma emap_cong: "(\<And>x. x \<in> set xs \<Longrightarrow> f x = g x) \<Longrightarrow> emap f xs = emap g xs"
  by (induction xs) simp_all

lemma classifier_apply_flag:
  "fst (classifier_apply (set_flag wp out self) c) = fst (classifier_apply self c)"
  by (simp add: classifier_apply_fst cong: sum.case_cong)

lemma fst_remove_noise:
  "fst (remove_noise ext self part)
   = (let vox = pcd2voxel ext (pcd self) (Some part);
          self1 = self\<lparr>pcd_voxel := fst vox, voxel_size := fst (snd vox),
                       voxel_density := snd (snd vox)\<rparr>
      in Inr (self1,
              map (\<lambda>kc. (fst kc, fst (denoise_kind ext self1 (fst kc) (snd kc))))
                (pcd_classified self),
              map (\<lambda>kc. (fst kc, snd (denoise_kind ext self1 (fst kc) (snd kc))))
                (pcd_classified self)))"
proof -
  let ?vox = "pcd2voxel ext (pcd self) (Some part)"
  let ?self1 = "self\<lparr>pcd_voxel := fst ?vox, voxel_size := fst (snd ?vox),
                       voxel_density := snd (snd ?vox)\<rparr>"
  have "emap (\<lambda>x. fst (clean_kind ext ?self1 x)) (pcd_classified self)
        = Inr (map (\<lambda>kc. ((fst kc, fst (denoise_kind ext ?self1 (fst kc) (snd kc))),
                           (fst kc, snd (denoise_kind ext ?self1 (fst kc) (snd kc)))))
                 (pcd_classified self))"
    by (rule emap_total) (simp add: fst_clean_kind)
  then show ?thesis
    by (simp add: remove_noise_def Let_def fst_rbind fst_rmap fst_run_simps comp_def)
qed

lemma denoise_kind_voxel:
  "voxel_size a = voxel_size b \<Longrightarrow> voxel_density a = voxel_density b \<Longrightarrow>
     denoise_kind ext a k c = denoise_kind ext b k c"
  by (simp add: denoise_kind_def)

lemma Plot_init_loaded_flag:
  "map_sum id (set_flag False output_path)
     (fst (Plot_init_loaded ext path c output_path True loaded))
   = fst (Plot_init_loaded ext path c output_path False loaded)"
proof -
  let ?on = "new_plot path (snd loaded) (path_join output_path (snd loaded)) True (fst loaded)"
  let ?off = "new_plot path (snd loaded) output_path False (fst loaded)"
  have off: "?off = set_flag False output_path ?on"
    by (simp add: new_plot_def set_flag_def)
  have cl: "fst (classifier_apply ?on c) = fst (classifier_apply ?off c)"
    by (simp add: off classifier_apply_flag)
  show ?thesis
  proof (cases "fst (classifier_apply ?off c)")
    case (Inl e)
    with cl show ?thesis
      by (simp add: Plot_init_loaded_def fst_rbind fst_run_simps Let_def)
  next
    case classified: (Inr classified)
    have dk: "denoise_kind ext
                (?on\<lparr>pcd_classified := classified, pcd_voxel := v, voxel_size := s,
                      voxel_density := d\<rparr>) k x
            = denoise_kind ext
                (?off\<lparr>pcd_classified := classified, pcd_voxel := v, voxel_size := s,
                       voxel_density := d\<rparr>) k x" for v s d k x
      by (rule denoise_kind_voxel) simp_all
    show ?thesis
      using cl classified
      by (simp add: Plot_init_loaded_def fst_rbind fst_run_simps Let_def fst_remove_noise dk)
         (simp add: new_plot_def set_flag_def)
  qed
qed

lemma Plot_init_loaded_silent:
  "snd (Plot_init_loaded ext path c output_path False loaded) = []"
  by (auto simp: Plot_init_loaded_def snd_rbind snd_run_simps Let_def new_plot_def
      classifier_apply_silent remove_noise_silent split: sum.splits)

lemma Plot_init_flag:
  "map_sum id (set_flag False output_path) (fst (Plot_init ext path c output_path True))
   = fst (Plot_init ext path c output_path False)"
  by (cases "Plot_load ext path")
     (simp_all add: Plot_init_def fst_rbind fst_run_simps Plot_init_loaded_flag)

lemma Plot_init_silent: "snd (Plot_init ext path c output_path False) = []"
  by (cases "Plot_load ext path")
     (simp_all add: Plot_init_def snd_rbind snd_run_simps fst_run_simps
        Plot_init_loaded_silent)

lemma emit_instances_flag:
  "fst (emit_instances (set_flag wp out self) k segs rows i)
   = fst (emit_instances self k segs rows i)"
  by (induction rows arbitrary: i) (simp_all add: fst_rbind fst_run_simps Let_def)

lemma segment_kind_flag:
  "fst (segment_kind ext (set_flag wp out self) name_by ascending eps_times mp img_folder k)
   = fst (segment_kind ext self name_by ascending eps_times mp img_folder k)"
  by (simp add: segment_kind_def fst_rbind fst_run_simps Let_def emit_instances_flag)

lemma auto_segmentation_flag:
  "map_sum id (\<lambda>r. (snd r, pcd_segmented_name (fst r)))
     (fst (auto_segmentation ext (set_flag wp out self) name_by ascending eps_times min_points
             img_folder))
   = map_sum id (\<lambda>r. (snd r, pcd_segmented_name (fst r)))
       (fst (auto_segmentation ext self name_by ascending eps_times min_points img_folder))"
  by (simp add: auto_segmentation_def fst_rbind fst_rmap fst_run_simps Let_def segment_kind_flag
      ebind_def cong: option.case_cong split: sum.splits)

lemma crop_kind_flag:
  "fst (crop_kind ext (set_flag wp out self) a_max a_min shp kc)
   = fst (crop_kind ext self a_max a_min shp kc)"
  by (simp add: fst_crop_kind)

lemma shp_segmentation_flag:
  "map_sum id (\<lambda>r. (snd r, pcd_segmented_name (fst r)))
     (fst (shp_segmentation ext (set_flag wp out self) shp_dir rename))
   = map_sum id (\<lambda>r. (snd r, pcd_segmented_name (fst r)))
       (fst (shp_segmentation ext self shp_dir rename))"
  by (simp add: shp_segmentation_def fst_rbind fst_rmap fst_run_simps Let_def crop_kind_flag
      ebind_def split: sum.splits)

lemma trait_of_flag: "trait_of (set_flag wp out self) k i p = trait_of self k i p"
  by (simp add: trait_of_def)

lemma draw_instance_off: "\<not> write_ply self \<Longrightarrow> fst (draw_instance self savefig k i) = Inr ()"
  by (simp add: draw_instance_def fst_run_simps)

lemma draw_instance_named:
  assumes "names_cover self" and "ksegs \<in> set (pcd_segmented self)"
    and "i < length (snd ksegs)"
  shows "fst (draw_instance (set_flag wp out self) savefig (fst ksegs) i) = Inr ()"
proof -
  from assms(1,2) obtain names where
    n: "map_of (pcd_segmented_name self) (fst ksegs) = Some names"
    and l: "length (snd ksegs) \<le> length names"
    by (auto simp: names_cover_def list_all_iff split: option.splits)
  from l assms(3) have "i < length names" by simp
  with n show ?thesis
    by (simp add: draw_instance_def fst_rbind fst_run_simps dict_get_def py_index_def)
qed

lemma instance_traits_flag:
  assumes "names_cover self" and "\<not> write_ply self"
    and "ksegs \<in> set (pcd_segmented self)" and "fst iseg < length (snd ksegs)"
  shows "fst (instance_traits ext (set_flag wp out self) container_ht ght savefig (fst ksegs) iseg)
       = fst (instance_traits ext self container_ht ght savefig (fst ksegs) iseg)"
  using draw_instance_named [OF assms(1,3,4)] draw_instance_off [OF assms(2)]
  by (simp add: instance_traits_def fst_rbind fst_run_simps trait_of_flag)

lemma kind_traits_flag:
  assumes "names_cover self" and "\<not> write_ply self" and "ksegs \<in> set (pcd_segmented self)"
  shows "fst (kind_traits ext (set_flag wp out self) container_ht ght savefig ksegs)
       = fst (kind_traits ext self container_ht ght savefig ksegs)"
proof -
  have "fst iseg < length (snd ksegs)" if "iseg \<in> set (enumerate 0 (snd ksegs))" for iseg
    using that by (auto simp: in_set_enumerate_eq)
  then show ?thesis
    using instance_traits_flag [OF assms]
    by (simp add: kind_traits_def fst_rmap cong: emap_cong)
qed

lemma get_traits_flag:
  assumes "names_cover self" and "\<not> write_ply self"
  shows "fst (get_traits ext (set_flag wp out self) container_ht ght savefig)
       = fst (get_traits ext self container_ht ght savefig)"
proof -
  have "emap (\<lambda>x. fst (kind_traits ext (set_flag wp out self) container_ht ght savefig x))
          (pcd_segmented self)
      = emap (\<lambda>x. fst (kind_traits ext self container_ht ght savefig x)) (pcd_segmented self)"
    by (rule emap_cong) (rule kind_traits_flag [OF assms])
  then show ?thesis
    by (simp add: get_traits_def fst_rbind fst_rmap fst_run_simps)
qed

text \<open>
  C9, as the code has it. Without the write flag the constructor makes no directory and writes
  no cloud, polygon segmentation and trait extraction leave nothing behind, and automatic
  segmentation leaves only its per-class diagnostic images, one per class when it returns:
  that image is drawn whatever the flag says. The flag changes nothing else: the plot built
  with the flag equals the plot built without it up to the flag and the folder, and the
  segmentation results, the instance names and the trait table are the same with the flag
  set. For the constructor both facts are stated twice: for the whole of it, and for its
  lines 209 to 227 from whatever cloud and name were loaded.
\<close>

theorem side_files_gated_by_write_flag:
  "snd (Plot_init ext path c output_path False) = []
   \<and> map_sum id (set_flag False output_path) (fst (Plot_init ext path c output_path True))
       = fst (Plot_init ext path c output_path False)
   \<and> snd (Plot_init_loaded ext path c output_path False loaded) = []
   \<and> map_sum id (set_flag False output_path)
        (fst (Plot_init_loaded ext path c output_path True loaded))
       = fst (Plot_init_loaded ext path c output_path False loaded)
   \<and> (\<not> write_ply self \<longrightarrow>
        snd (shp_segmentation ext self shp_dir rename) = []
      \<and> snd (get_traits ext self container_ht ght savefig) = []
      \<and> list_all is_seg_image
           (snd (auto_segmentation ext self name_by ascending eps_times min_points img_folder))
      \<and> (\<forall>r. fst (auto_segmentation ext self name_by ascending eps_times min_points img_folder)
                = Inr r \<longrightarrow>
              length (snd (auto_segmentation ext self name_by ascending eps_times min_points
                             img_folder))
              = length (snd r))
      \<and> map_sum id (\<lambda>r. (snd r, pcd_segmented_name (fst r)))
           (fst (auto_segmentation ext (set_flag True out self) name_by ascending eps_times
                   min_points img_folder))
         = map_sum id (\<lambda>r. (snd r, pcd_segmented_name (fst r)))
             (fst (auto_segmentation ext self name_by ascending eps_times min_points img_folder))
      \<and> map_sum id (\<lambda>r. (snd r, pcd_segmented_name (fst r)))
           (fst (shp_segmentation ext (set_flag True out self) shp_dir rename))
         = map_sum id (\<lambda>r. (snd r, pcd_segmented_name (fst r)))
             (fst (shp_segmentation ext self shp_dir rename))
      \<and> (names_cover self \<longrightarrow>
           fst (get_traits ext (set_flag True out self) container_ht ght savefig)
           = fst (get_traits ext self container_ht ght savefig)))"
proof (intro conjI impI)
  show "snd (Plot_init ext path c output_path False) = []"
    by (rule Plot_init_silent)
  show "map_sum id (set_flag False output_path) (fst (Plot_init ext path c output_path True))
       = fst (Plot_init ext path c output_path False)"
    by (rule Plot_init_flag)
  show "snd (Plot_init_loaded ext path c output_path False loaded) = []"
    by (rule Plot_init_loaded_silent)
  show "map_sum id (set_flag False output_path)
          (fst (Plot_init_loaded ext path c output_path True loaded))
       = fst (Plot_init_loaded ext path c output_path False loaded)"
    by (rule Plot_init_loaded_flag)
next
  assume off: "\<not> write_ply self"
  show "snd (shp_segmentation ext self shp_dir rename) = []"
    by (rule shp_segmentation_silent [OF off])
  show "snd (get_traits ext self container_ht ght savefig) = []"
    by (rule get_traits_silent [OF off])
  show "list_all is_seg_image
           (snd (auto_segmentation ext self name_by ascending eps_times min_points img_folder))"
    using auto_segmentation_effects [OF off] by blast
  show "\<forall>r. fst (auto_segmentation ext self name_by ascending eps_times min_points img_folder)
                = Inr r \<longrightarrow>
              length (snd (auto_segmentation ext self name_by ascending eps_times min_points
                             img_folder))
              = length (snd r)"
    using auto_segmentation_effects [OF off] by blast
  show "map_sum id (\<lambda>r. (snd r, pcd_segmented_name (fst r)))
           (fst (auto_segmentation ext (set_flag True out self) name_by ascending eps_times
                   min_points img_folder))
         = map_sum id (\<lambda>r. (snd r, pcd_segmented_name (fst r)))
             (fst (auto_segmentation ext self name_by ascending eps_times min_points img_folder))"
    by (rule auto_segmentation_flag)
  show "map_sum id (\<lambda>r. (snd r, pcd_segmented_name (fst r)))
           (fst (shp_segmentation ext (set_flag True out self) shp_dir rename))
         = map_sum id (\<lambda>r. (snd r, pcd_segmented_name (fst r)))
             (fst (shp_segmentation ext self shp_dir rename))"
    by (rule shp_segmentation_flag)
next
  assume "\<not> write_ply self" and "names_cover self"
  then show "fst (get_traits ext (set_flag True out self) container_ht ght savefig)
           = fst (get_traits ext self container_ht ght savefig)"
    by (rule get_traits_flag [rotated])
qed

text \<open>
  The write flag is off, and automatic segmentation of the plot still draws the diagnostic
  image of class 0.
\<close>

theorem seg_image_drawn_without_flag:
  "write_ply orchard_plot = False
   \<and> snd (auto_segmentation demo_libs orchard_plot ''x'' True 10 None ''.'')
       = [DrawPlotSeg ''./S03-class[0].png'' (5, 5)]"
  by (simp add: orchard_auto orchard_fields)

lemma demo_classifier_built:
  "Classifier_init demo_libs [Path ''back.png'', Path ''fore.png''] [- 1, 0] ''dtc''
   = Inr demo_classifier"
  by (simp add: Classifier_init_def Let_def training_colors_def read_png_def demo_imread_def
      demo_libs_def nearest_fit_def demo_classifier_def)

lemma demo_classifier_predicts:
  "predict demo_classifier (cloud_rgb demo_cloud) = Inr [- 1, 0, 0]"
  by (simp add: predict_def demo_classifier_def demo_cloud_def cloud_rgb_def sq_dist_def
      vx_def vy_def vz_def power2_eq_square)

lemma demo_classifier_kinds: "kind_set demo_classifier = [- 1, 0]"
  by (simp add: demo_classifier_def)

lemma demo_plot_built_any:
  "fst (Plot_init_loaded demo_libs ''S03.ply'' demo_classifier ''.'' wp (demo_cloud, ''S03''))
   = Inr (set_flag wp (if wp then ''./S03'' else ''.'') demo_plot)"
proof -
  let ?out = "if wp then path_join ''.'' ''S03'' else ''.''"
  have sel: "select_down_sample demo_cloud (np_where (\<lambda>v. v = - 1) [- 1, 0, 0 :: int])
             = [((0, 0, 0), (2 / 5, 1 / 5, 0))]"
    "select_down_sample demo_cloud (np_where (\<lambda>v. v = 0) [- 1, 0, 0 :: int])
             = [((1, 1, 1), (0, 1, 0)), ((1, 2, 2), (0, 1, 0))]"
    by (simp_all add: select_down_sample_def np_where_def demo_cloud_def upt_rec)
  have cl: "fst (classifier_apply S demo_classifier)
            = Inr [(- 1, [((0, 0, 0), (2 / 5, 1 / 5, 0))]),
                   (0, [((1, 1, 1), (0, 1, 0)), ((1, 2, 2), (0, 1, 0))])]"
    if "pcd S = demo_cloud" for S
    using that
    by (simp add: classifier_apply_fst pcd_rgb_def demo_classifier_predicts
        demo_classifier_kinds sel)
  have np: "pcd (new_plot a b d e f) = f" for a b d e f
    by (simp add: new_plot_def)
  have vox: "pcd2voxel demo_libs c part = ([], 1 / 10, 5 / 2)" for c part
    by (simp add: demo_libs_def)
  have dn: "denoise_kind demo_libs s k c = (c, [0..<length c])" for s k c
    by (simp add: denoise_kind_def demo_libs_def keep_all_def)
  have "fst (Plot_init_loaded demo_libs ''S03.ply'' demo_classifier ''.'' wp
              (demo_cloud, ''S03''))
        = Inr (set_flag wp ?out demo_plot)"
    by (simp add: Plot_init_loaded_def fst_rbind fst_run_simps Let_def cl np fst_remove_noise
        vox dn del: set_flag_fields)
       (simp add: demo_plot_def new_plot_def set_flag_def)
  then show ?thesis by (simp add: path_join_def)
qed

lemma demo_plot_built:
  "fst (Plot_init_loaded demo_libs ''S03.ply'' demo_classifier ''.'' False
          (demo_cloud, ''S03''))
   = Inr demo_plot"
  by (simp add: demo_plot_built_any set_flag_def demo_plot_def new_plot_def)

lemma orchard_segmented_built:
  "fst (auto_segmentation demo_libs orchard_plot ''x'' True 10 None ''.'')
   = Inr (orchard_segmented, pcd_segmented orchard_segmented)"
  by (simp add: orchard_auto orchard_segmented_def west_plant_def east_plant_def)

lemma orchard_segmented_fields:
  "write_ply orchard_segmented = False" "segmented orchard_segmented = True"
  "pcd_segmented orchard_segmented = [(0, [west_plant, east_plant])]"
  "pcd_segmented_name orchard_segmented = [(0, [''class[0]-plant0'', ''class[0]-plant1''])]"
  "pcd_classified orchard_segmented = [(- 1, orchard_ground), (0, orchard_plants)]"
  "ply_name orchard_segmented = ''S03''"
  by (simp_all add: orchard_segmented_def orchard_fields)

lemma orchard_names_cover: "names_cover orchard_segmented"
  by (simp add: names_cover_def orchard_segmented_fields)

theorem side_files_gated_by_write_flag_witness:
  "snd (Plot_init demo_libs ''S03.ply'' demo_classifier ''.'' False) = []
   \<and> fst (Plot_init demo_libs ''S03.ply'' demo_classifier ''.'' True) = Inl TypeError
   \<and> fst (Plot_init demo_libs ''S03.ply'' demo_classifier ''.'' False) = Inl TypeError
   \<and> snd (Plot_init_loaded demo_libs ''S03.ply'' demo_classifier ''.'' False
            (demo_cloud, ''S03'')) = []
   \<and> fst (Plot_init_loaded demo_libs ''S03.ply'' demo_classifier ''.'' False
            (demo_cloud, ''S03'')) = Inr demo_plot
   \<and> fst (Plot_init_loaded demo_libs ''S03.ply'' demo_classifier ''.'' True
            (demo_cloud, ''S03''))
       = Inr (set_flag True ''./S03'' demo_plot)
   \<and> \<not> write_ply orchard_segmented
   \<and> names_cover orchard_segmented
   \<and> snd (shp_segmentation demo_libs orchard_segmented (OneShp ''plots.shp'') True) = []
   \<and> snd (get_traits demo_libs orchard_segmented 0 Auto True) = []
   \<and> list_all is_seg_image
        (snd (auto_segmentation demo_libs orchard_segmented ''x'' True 10 None ''.''))
   \<and> fst (get_traits demo_libs (set_flag True ''./S03'' orchard_segmented) 0 Auto True)
       = fst (get_traits demo_libs orchard_segmented 0 Auto True)"
proof -
  note main = side_files_gated_by_write_flag
    [where ext = demo_libs and path = "''S03.ply''" and c = demo_classifier
       and output_path = "''.''" and self = orchard_segmented
       and shp_dir = "OneShp ''plots.shp''" and rename = True and container_ht = 0
       and ght = Auto and savefig = True and name_by = "''x''" and ascending = True
       and eps_times = 10 and min_points = None and img_folder = "''.''"
       and out = "''./S03''" and loaded = "(demo_cloud, ''S03'')"]
  have off: "\<not> write_ply orchard_segmented"
    by (simp add: orchard_segmented_fields)
  have on: "fst (Plot_init_loaded demo_libs ''S03.ply'' demo_classifier ''.'' True
                   (demo_cloud, ''S03''))
            = Inr (set_flag True ''./S03'' demo_plot)"
    by (simp add: demo_plot_built_any)
  from main off orchard_names_cover demo_plot_built on show ?thesis
    by (simp add: demo_plot_not_loaded)
qed

section \<open>Trait extraction over a segmented plot\<close>

lemma emap_fail: "x \<in> set xs \<Longrightarrow> f x = Inl e \<Longrightarrow> \<exists>e'. emap f xs = Inl e'"
proof (induction xs)
  case Nil
  then show ?case by simp
next
  case (Cons y ys)
  show ?case
  proof (cases "f y")
    case (Inl a)
    then show ?thesis by simp
  next
    case (Inr b)
    with Cons.prems have "x \<in> set ys" by auto
    from Cons.IH [OF this Cons.prems(2)] obtain e' where "emap f ys = Inl e'" by blast
    with Inr show ?thesis by simp
  qed
qed

lemma emap_Inr_all2: "emap f xs = Inr ys \<Longrightarrow> list_all2 (\<lambda>x y. f x = Inr y) xs ys"
  by (induction xs arbitrary: ys) (auto simp: ebind_eq_Inr)

lemma instance_traits_keys:
  "fst (instance_traits ext self container_ht ght savefig k iseg) = Inr row \<Longrightarrow>
     t_kind row = k \<and> t_plant row = fst iseg \<and> t_plot row = ply_name self"
  by (auto simp: instance_traits_def fst_rbind fst_run_simps ebind_eq_Inr trait_of_def)

lemma kind_traits_keys:
  assumes "fst (kind_traits ext self container_ht ght savefig ksegs) = Inr rows"
  shows "map (\<lambda>r. (t_kind r, t_plant r)) rows
         = map (\<lambda>i. (fst ksegs, i)) [0..<length (snd ksegs)]"
proof -
  let ?f = "\<lambda>x. fst (instance_traits ext self container_ht ght savefig (fst ksegs) x)"
  from assms have "emap ?f (enumerate 0 (snd ksegs)) = Inr rows"
    by (simp add: kind_traits_def fst_rmap)
  from emap_Inr_all2 [OF this]
  have a: "list_all2 (\<lambda>x y. ?f x = Inr y) (enumerate 0 (snd ksegs)) rows" .
  then have len: "length rows = length (snd ksegs)"
    by (auto dest: list_all2_lengthD)
  show ?thesis
  proof (rule nth_equalityI)
    show "length (map (\<lambda>r. (t_kind r, t_plant r)) rows)
          = length (map (\<lambda>i. (fst ksegs, i)) [0..<length (snd ksegs)])"
      by (simp add: len)
  next
    fix i
    assume "i < length (map (\<lambda>r. (t_kind r, t_plant r)) rows)"
    then have i: "i < length (snd ksegs)" by (simp add: len)
    with a have "?f (enumerate 0 (snd ksegs) ! i) = Inr (rows ! i)"
      by (simp add: list_all2_conv_all_nth)
    from instance_traits_keys [OF this] i
    show "map (\<lambda>r. (t_kind r, t_plant r)) rows ! i
          = map (\<lambda>i. (fst ksegs, i)) [0..<length (snd ksegs)] ! i"
      by (simp add: len nth_enumerate_eq)
  qed
qed

lemma get_traits_keys:
  assumes "fst (get_traits ext self container_ht ght savefig) = Inr rows"
  shows "map (\<lambda>r. (t_kind r, t_plant r)) rows
         = concat (map (\<lambda>ks. map (\<lambda>i. (fst ks, i)) [0..<length (snd ks)])
             (pcd_segmented self))"
proof -
  let ?f = "\<lambda>x. fst (kind_traits ext self container_ht ght savefig x)"
  from assms obtain tables where
    t: "emap ?f (pcd_segmented self) = Inr tables" and r: "rows = concat tables"
    by (auto simp: get_traits_def fst_rbind fst_rmap fst_run_simps ebind_eq_Inr
        split: if_splits)
  from emap_Inr_all2 [OF t]
  have "list_all2 (\<lambda>x y. ?f x = Inr y) (pcd_segmented self) tables" .
  then have "map (map (\<lambda>r. (t_kind r, t_plant r))) tables
        = map (\<lambda>ks. map (\<lambda>i. (fst ks, i)) [0..<length (snd ks)]) (pcd_segmented self)"
    by (induction rule: list_all2_induct) (auto dest: kind_traits_keys)
  then show ?thesis
    by (simp add: r map_concat)
qed

lemma zero_foreground_raises:
  assumes "fold max (concat binary) 0 = 0"
  shows "get_projected_leaf_area binary px_num_per_cm = Inl IndexError"
proof -
  have "v = 0" if "v \<in> set (concat binary)" for v
  proof -
    have "v \<le> Max (set (0 # concat binary))" using that by simp
    also have "\<dots> = fold max (concat binary) 0" by (rule Max.set_eq_fold)
    finally show ?thesis using assms by simp
  qed
  then have "set (remdups (concat binary)) \<subseteq> {0}" by auto
  then have "card (set (remdups (concat binary))) \<le> 1"
    by (metis card.empty card_insert_if finite.emptyI le_SucI One_nat_def
        card_eq_0_iff le_numeral_extra(4) subset_singletonD zero_le)
  then have "length (remdups (concat binary)) \<le> 1"
    by (simp add: distinct_card [symmetric])
  then show ?thesis
    by (simp add: get_projected_leaf_area_def np_unique_counts_def py_index_def)
qed

text \<open>
  C4, as the code has it. \<^verbatim>\<open>get_traits\<close> has no handler around the construction of a
  plant: when the traits of one instance cannot be computed, the exception leaves
  \<^verbatim>\<open>get_traits\<close>, no table is returned and the instances after it are not visited.
  A table is returned only when every instance of every class succeeded, and then it has one
  row per instance, in the order of the classes and of the instances within each class.
\<close>

theorem instance_failure_aborts_get_traits:
  "(segmented self \<and> ksegs \<in> set (pcd_segmented self) \<and> i < length (snd ksegs)
      \<and> dict_get (pcd_classified self) (- 1) = Inr ground
      \<and> Plant_init ext (snd ksegs ! i) i ground True container_ht ght = Inl e
    \<longrightarrow> (\<exists>e'. fst (get_traits ext self container_ht ght savefig) = Inl e'))
   \<and> (fst (get_traits ext self container_ht ght savefig) = Inr rows
    \<longrightarrow> map (\<lambda>r. (t_kind r, t_plant r)) rows
        = concat (map (\<lambda>ks. map (\<lambda>i. (fst ks, i)) [0..<length (snd ks)])
            (pcd_segmented self)))"
proof (intro conjI impI)
  assume a: "segmented self \<and> ksegs \<in> set (pcd_segmented self) \<and> i < length (snd ksegs)
      \<and> dict_get (pcd_classified self) (- 1) = Inr ground
      \<and> Plant_init ext (snd ksegs ! i) i ground True container_ht ght = Inl e"
  let ?inst = "\<lambda>x. fst (instance_traits ext self container_ht ght savefig (fst ksegs) x)"
  let ?kind = "\<lambda>x. fst (kind_traits ext self container_ht ght savefig x)"
  from a have mem: "(i, snd ksegs ! i) \<in> set (enumerate 0 (snd ksegs))"
    by (simp add: in_set_enumerate_eq)
  from a have fail: "?inst (i, snd ksegs ! i) = Inl e"
    by (simp add: instance_traits_def fst_rbind fst_run_simps)
  from emap_fail [of "(i, snd ksegs ! i)" "enumerate 0 (snd ksegs)" ?inst e, OF mem fail]
  obtain e1 where "emap ?inst (enumerate 0 (snd ksegs)) = Inl e1" ..
  then have kind: "?kind ksegs = Inl e1"
    by (simp add: kind_traits_def fst_rmap)
  from a have "ksegs \<in> set (pcd_segmented self)" by simp
  from emap_fail [of ksegs "pcd_segmented self" ?kind e1, OF this kind]
  obtain e2 where "emap ?kind (pcd_segmented self) = Inl e2" ..
  with a show "\<exists>e'. fst (get_traits ext self container_ht ght savefig) = Inl e'"
    by (simp add: get_traits_def fst_rbind fst_rmap fst_run_simps)
next
  assume "fst (get_traits ext self container_ht ght savefig) = Inr rows"
  then show "map (\<lambda>r. (t_kind r, t_plant r)) rows
        = concat (map (\<lambda>ks. map (\<lambda>i. (fst ks, i)) [0..<length (snd ks)])
            (pcd_segmented self))"
    by (rule get_traits_keys)
qed

lemma demo_libs_fields:
  "crop_point_cloud demo_libs = box_crop"
  "build_cut_boundary demo_libs polygon zr = shp_boundary (snd zr) (fst zr) polygon"
  "convex_hull2d demo_libs = demo_hull"
  "min_bounding_rect demo_libs h
   = Inr \<lparr>rot_angle = 0, rect_area = 1, rect_width = 1, rect_length = 1\<rparr>"
  "pcd2binary demo_libs c = Inr ([[0, 1], [1, 1]], 1, (0, 0))"
  "regionprops demo_libs b
   = [\<lparr>region_centroid = (1, 1), major_axis_length = 2, minor_axis_length = 1,
       orientation = 0\<rparr>]"
  "gaussian_kde demo_libs = flat_kde"
  by (simp_all add: demo_libs_def)

lemma west_clip: "clip_background demo_libs (cloud_xyz west_plant) orchard_ground = Inr []"
  by (simp add: clip_background_def demo_libs_fields cloud_xyz_def west_plant_def
      orchard_ground_def np_max_def np_min_def vx_def vy_def vz_def Let_def box_crop_def
      in_box_def shp_boundary_def)

lemma east_clip:
  "clip_background demo_libs (cloud_xyz east_plant) orchard_ground
   = Inr [((9 / 4, 3 / 2, 0), (2 / 5, 1 / 5, 0)), ((9 / 4, 1, 1 / 10), (2 / 5, 1 / 5, 0))]"
  by (simp add: clip_background_def demo_libs_fields cloud_xyz_def east_plant_def
      orchard_ground_def np_max_def np_min_def vx_def vy_def vz_def Let_def box_crop_def
      in_box_def shp_boundary_def)

lemma demo_hull_plants:
  "\<exists>h. demo_hull west_plant = Inr h" "\<exists>h. demo_hull east_plant = Inr h"
  by (simp_all add: demo_hull_def west_plant_def east_plant_def vx_def vy_def)

lemma demo_region:
  "get_region_props demo_libs [[0, Suc 0], [Suc 0, Suc 0]] 1 (0, 0)
   = Inr ((1 / 100, 1 / 100), 1 / 50, 1 / 100, 0)"
  by (simp add: get_region_props_def demo_libs_fields py_index_def py_div_def)

lemma demo_area: "get_projected_leaf_area [[0, Suc 0], [Suc 0, Suc 0]] 1 = Inr 3"
  by (simp add: get_projected_leaf_area_def np_unique_counts_def py_index_def py_div_def)

lemma west_height:
  "get_percentile_height flat_kde (map vz (cloud_xyz west_plant)) (map vz (cloud_xyz [])) 0 Auto
   = Inl ValueError"
  by (simp add: get_percentile_height_def ground_elevation_def ground_sample_def
      np_percentile_def Let_def np_min_def cloud_xyz_def west_plant_def vz_def)

lemma east_height:
  "map_sum id fst
     (get_percentile_height flat_kde (map vz (cloud_xyz east_plant))
        (map vz (cloud_xyz
           [((9 / 4, 3 / 2, 0), (2 / 5, 1 / 5, 0)), ((9 / 4, 1, 1 / 10), (2 / 5, 1 / 5, 0))]))
        0 Auto)
   = Inr (Num (79 / 20))"
  by (simp add: get_percentile_height_def ground_elevation_def ground_sample_def
      np_percentile_def Let_def np_min_def np_max_def flat_kde_def np_median_def
      points_above_def np_mean_def cloud_xyz_def east_plant_def vz_def)

lemma west_fails: "Plant_init demo_libs west_plant 0 orchard_ground True 0 Auto = Inl ValueError"
  using demo_hull_plants(1) demo_region
  by (auto simp: Plant_init_def west_clip demo_libs_fields demo_area west_height)

lemma east_succeeds:
  "map_sum id pctl_ht (Plant_init demo_libs east_plant (Suc 0) orchard_ground True 0 Auto)
   = Inr (Num (79 / 20))"
proof -
  from east_height obtain ht where
    h: "get_percentile_height flat_kde (map vz (cloud_xyz east_plant))
        (map vz (cloud_xyz
           [((9 / 4, 3 / 2, 0), (2 / 5, 1 / 5, 0)), ((9 / 4, 1, 1 / 10), (2 / 5, 1 / 5, 0))]))
        0 Auto = Inr ht" and f: "fst ht = Num (79 / 20)"
    by (cases "get_percentile_height flat_kde (map vz (cloud_xyz east_plant))
        (map vz (cloud_xyz
           [((9 / 4, 3 / 2, 0), (2 / 5, 1 / 5, 0)), ((9 / 4, 1, 1 / 10), (2 / 5, 1 / 5, 0))]))
        0 Auto") auto
  show ?thesis
    using demo_hull_plants(2) demo_region
    by (auto simp: Plant_init_def east_clip demo_libs_fields demo_area h f)
qed

lemma orchard_traits_abort:
  "get_traits demo_libs orchard_segmented 0 Auto True = (Inl ValueError, [])"
  by (simp add: get_traits_def kind_traits_def instance_traits_def orchard_segmented_fields
      dict_get_def enumerate_eq_zip upt_rec west_fails rbind_def rlift_def rpure_def)

text \<open>
  The first instance of the plot has no ground point near it and its height estimation
  raises; the second instance has a height of 3.95. \<^verbatim>\<open>get_traits\<close> returns the exception
  and no row for either.
\<close>

theorem failing_instance_loses_the_table:
  "segmented orchard_segmented
   \<and> pcd_segmented orchard_segmented = [(0, [west_plant, east_plant])]
   \<and> Plant_init demo_libs west_plant 0 orchard_ground True 0 Auto = Inl ValueError
   \<and> map_sum id pctl_ht (Plant_init demo_libs east_plant (Suc 0) orchard_ground True 0 Auto)
       = Inr (Num (79 / 20))
   \<and> get_traits demo_libs orchard_segmented 0 Auto True = (Inl ValueError, [])"
  by (simp add: orchard_segmented_fields west_fails east_succeeds orchard_traits_abort)

lemma fixed_height_runs:
  "\<exists>ht. get_percentile_height flat_kde (map vz (cloud_xyz west_plant)) g 0 (Fixed 0) = Inr ht"
  "\<exists>ht. get_percentile_height flat_kde (map vz (cloud_xyz east_plant)) g 0 (Fixed 0) = Inr ht"
  by (simp_all add: get_percentile_height_def np_percentile_def Let_def points_above_def
      cloud_xyz_def west_plant_def east_plant_def vz_def)

lemma plants_fixed:
  "\<exists>p. Plant_init demo_libs west_plant 0 orchard_ground True 0 (Fixed 0) = Inr p"
  "\<exists>p. Plant_init demo_libs east_plant (Suc 0) orchard_ground True 0 (Fixed 0) = Inr p"
  using demo_hull_plants fixed_height_runs
  by (auto simp: Plant_init_def west_clip east_clip demo_libs_fields demo_area demo_region
      ebind_eq_Inr)

lemma orchard_traits_fixed:
  "\<exists>rows. fst (get_traits demo_libs orchard_segmented 0 (Fixed 0) True) = Inr rows"
  using plants_fixed
  by (auto simp: get_traits_def kind_traits_def instance_traits_def orchard_segmented_fields
      dict_get_def enumerate_eq_zip upt_rec fst_rbind fst_rmap fst_run_simps draw_instance_def
      ebind_eq_Inr)

theorem instance_failure_aborts_get_traits_witness:
  "segmented orchard_segmented
   \<and> (0, [west_plant, east_plant]) \<in> set (pcd_segmented orchard_segmented)
   \<and> 0 < length [west_plant, east_plant]
   \<and> dict_get (pcd_classified orchard_segmented) (- 1) = Inr orchard_ground
   \<and> Plant_init demo_libs west_plant 0 orchard_ground True 0 Auto = Inl ValueError
   \<and> (\<exists>e'. fst (get_traits demo_libs orchard_segmented 0 Auto True) = Inl e')
   \<and> (\<exists>rows. fst (get_traits demo_libs orchard_segmented 0 (Fixed 0) True) = Inr rows
        \<and> map (\<lambda>r. (t_kind r, t_plant r)) rows = [(0, 0), (0, 1)])"
proof -
  have g: "dict_get (pcd_classified orchard_segmented) (- 1) = Inr orchard_ground"
    by (simp add: dict_get_def orchard_segmented_fields)
  have m: "(0, [west_plant, east_plant]) \<in> set (pcd_segmented orchard_segmented)"
    by (simp add: orchard_segmented_fields)
  have s: "segmented orchard_segmented"
    by (simp add: orchard_segmented_fields)
  note main = instance_failure_aborts_get_traits
    [where self = orchard_segmented and ksegs = "(0, [west_plant, east_plant])" and i = 0
       and ground = orchard_ground and ext = demo_libs and container_ht = 0
       and e = ValueError and savefig = True]
  from main [where ght = Auto and rows = "[]"] s m g west_fails
  have abort: "\<exists>e'. fst (get_traits demo_libs orchard_segmented 0 Auto True) = Inl e'"
    by simp
  from orchard_traits_fixed obtain rows where
    r: "fst (get_traits demo_libs orchard_segmented 0 (Fixed 0) True) = Inr rows" ..
  from main [where ght = "Fixed 0" and rows = rows] r
  have "map (\<lambda>r. (t_kind r, t_plant r)) rows = [(0, 0), (0, 1)]"
    by (simp add: orchard_segmented_fields upt_rec)
  with r s m g west_fails abort show ?thesis by simp
qed

section \<open>Reachable states\<close>

subsection \<open>The fitted decision tree does partition the cloud\<close>

lemma one_key_counts_once:
  "distinct ks \<Longrightarrow> a \<in> set ks \<Longrightarrow> sum_list (map (\<lambda>k. if a = k then 1 else 0) ks) = (1 :: nat)"
  by (induction ks) auto

lemma partition_sizes:
  assumes "distinct ks" and "\<And>x. x \<in> set xs \<Longrightarrow> f x \<in> set ks"
  shows "sum_list (map (\<lambda>k. length (filter (\<lambda>x. f x = k) xs)) ks) = length xs"
  using assms(2)
proof (induction xs)
  case Nil
  then show ?case by simp
next
  case (Cons x xs)
  have "sum_list (map (\<lambda>k. length (filter (\<lambda>y. f y = k) (x # xs))) ks)
      = sum_list (map (\<lambda>k. (if f x = k then 1 else 0) + length (filter (\<lambda>y. f y = k) xs)) ks)"
    by (intro arg_cong [where f = sum_list] map_cong) auto
  also have "\<dots> = sum_list (map (\<lambda>k. if f x = k then 1 else 0) ks)
                 + sum_list (map (\<lambda>k. length (filter (\<lambda>y. f y = k) xs)) ks)"
    by (simp add: sum_list_addf)
  also have "\<dots> = 1 + length xs"
    using Cons one_key_counts_once [OF assms(1), of "f x"] by simp
  finally show ?case by simp
qed

lemma length_select_where:
  "length pred = length c \<Longrightarrow>
     length (select_down_sample c (np_where P pred)) = length (filter (\<lambda>i. P (pred ! i)) [0..<length c])"
proof -
  assume l: "length pred = length c"
  have "filter (\<lambda>i. i < length c) (np_where P pred) = np_where P pred"
    by (subst filter_id_conv) (auto simp: np_where_def l)
  then show ?thesis
    by (simp add: select_down_sample_def) (simp add: np_where_def l)
qed

lemma decision_tree_partitions_cloud:
  assumes init: "Classifier_init ext paths kinds core = Inr c"
    and sound: "predicts_trained_labels ext"
    and res: "fst (classifier_apply self c) = Inr d"
  shows "\<exists>pred. length pred = length (pcd self)
           \<and> d = map (\<lambda>k. (k, select_down_sample (pcd self) (np_where (\<lambda>v. v = k) pred)))
                   (kind_set c)
           \<and> distinct (kind_set c)
           \<and> (\<forall>i < length (pcd self). pred ! i \<in> set (kind_set c)
                \<and> (\<forall>k. (i \<in> set (np_where (\<lambda>v. v = k) pred)) = (k = pred ! i)))
           \<and> sum_list (map (\<lambda>kc. length (snd kc)) d) = length (pcd self)"
proof -
  note f = Classifier_init_fields [OF init]
  from res obtain pred where pred: "predict c (pcd_rgb self) = Inr pred"
    and d: "d = map (\<lambda>k. (k, select_down_sample (pcd self) (np_where (\<lambda>v. v = k) pred)))
                 (kind_set c)"
    by (auto simp: classifier_apply_fst split: sum.splits)
  from predict_tree [OF pred] obtain fitted where
    t: "clf c = Some (DecisionTreeClassifier fitted)" and p: "pred = map fitted (pcd_rgb self)"
    by blast
  have len: "length pred = length (pcd self)"
    by (simp add: p pcd_rgb_def cloud_rgb_def)
  from Classifier_init_tree [OF init t] sound
  have "\<And>v. fitted v \<in> set (train_kind c)"
    by (auto simp: predicts_trained_labels_def)
  with f(5) f(2) f(3) have lab: "\<And>v. fitted v \<in> set (kind_set c)"
    by (auto dest: in_set_takeD)
  have dist: "distinct (kind_set c)" by (simp add: f(3))
  have memb: "pred ! i \<in> set (kind_set c)
         \<and> (\<forall>k. (i \<in> set (np_where (\<lambda>v. v = k) pred)) = (k = pred ! i))"
    if "i < length (pcd self)" for i
    using that lab len by (auto simp: np_where_def p)
  have "sum_list (map (\<lambda>kc. length (snd kc)) d)
      = sum_list (map (\<lambda>k. length (filter (\<lambda>i. pred ! i = k) [0..<length (pcd self)]))
          (kind_set c))"
    by (simp add: d comp_def length_select_where [OF len])
  also have "\<dots> = length [0..<length (pcd self)]"
    by (rule partition_sizes [OF dist]) (use lab len in \<open>auto simp: p\<close>)
  finally have total: "sum_list (map (\<lambda>kc. length (snd kc)) d) = length (pcd self)"
    by simp
  from len d dist memb total show ?thesis by blast
qed

subsection \<open>The cleaned clouds that the constructor makes of a loaded cloud are made of its points\<close>

lemma constructed_plot_clouds:
  assumes shrink: "\<And>x n r. set (fst (remove_radius_outlier ext x n r)) \<subseteq> set x"
      "\<And>x n r. set (fst (remove_statistical_outlier ext x n r)) \<subseteq> set x"
    and built: "fst (Plot_init_loaded ext path c output_path wp loaded) = Inr self"
    and kc: "kc \<in> set (pcd_cleaned self)"
  shows "set (snd kc) \<subseteq> set (pcd self)"
proof -
  let ?out = "\<lambda>loaded. if wp then path_join output_path (snd loaded) else output_path"
  let ?self0 = "\<lambda>loaded. new_plot path (snd loaded) (?out loaded) wp (fst loaded)"
  have np: "pcd (new_plot a b d e f) = f" for a b d e f
    by (simp add: new_plot_def)
  from built obtain classified where
    cl: "fst (classifier_apply (?self0 loaded) c) = Inr classified"
    by (cases "fst (classifier_apply (?self0 loaded) c)")
       (simp_all add: Plot_init_loaded_def fst_rbind fst_run_simps Let_def)
  let ?self1 = "(?self0 loaded)\<lparr>pcd_classified := classified,
      pcd_voxel := fst (pcd2voxel ext (fst loaded) (Some 100)),
      voxel_size := fst (snd (pcd2voxel ext (fst loaded) (Some 100))),
      voxel_density := snd (snd (pcd2voxel ext (fst loaded) (Some 100)))\<rparr>"
  from built cl have p: "pcd self = fst loaded"
    and cleaned: "pcd_cleaned self
        = map (\<lambda>kc. (fst kc, fst (denoise_kind ext ?self1 (fst kc) (snd kc)))) classified"
    by (auto simp: Plot_init_loaded_def fst_rbind fst_run_simps Let_def fst_remove_noise np)
  have sub: "set (snd x) \<subseteq> set (fst loaded)" if "x \<in> set classified" for x
    using cl that
    by (auto simp: classifier_apply_fst np select_down_sample_def split: sum.splits)
  have dn: "set (fst (denoise_kind ext s k x)) \<subseteq> set x" for s k x
  proof (cases "k = - 1")
    case True
    let ?mid = "fst (remove_statistical_outlier ext x (py_round (voxel_density s)) (1 / 100))"
    have "set (fst (remove_radius_outlier ext ?mid (py_round (voxel_density s * 2))
                      (voxel_size s))) \<subseteq> set ?mid"
      by (rule shrink(1))
    also have "\<dots> \<subseteq> set x" by (rule shrink(2))
    finally show ?thesis by (simp add: denoise_kind_def True split_beta)
  next
    case False
    then show ?thesis by (simp add: denoise_kind_def shrink(1))
  qed
  from cleaned kc obtain x where "x \<in> set classified"
    and "snd kc = fst (denoise_kind ext ?self1 (fst x) (snd x))"
    by auto
  with dn [of ?self1 "fst x" "snd x"] sub [of x] p show ?thesis by auto
qed

end
